theory Spec2Isabelle
  imports Main "HOL-Library.AList"
begin

section \<open>Python values read from the configuration tree\<close>

text \<open>
  The configuration tree of slimta is a nested mapping of string keys to scalars,
  sequences and mappings. A mapping keeps its keys in declaration order, so it is an
  association list here, read with \<open>map_of\<close> (the first entry of a key is the one found).
\<close>

datatype cfgval =
    CNone
  | CBool bool
  | CInt int
  | CStr string
  | CList "cfgval list"
  | CMap "(string \<times> cfgval) list"

text \<open>The exceptions the two source files raise themselves or let through.\<close>

datatype error =
    ConfigError string
  | ConfigValidationError string
  | AttributeError string
  | TypeError
  | ValueError
  | IndexError
  | ExternalError string

text \<open>Python truth value of a configuration value (\<open>if x:\<close>, \<open>not x\<close>).\<close>

fun truthy :: "cfgval \<Rightarrow> bool" where
  "truthy CNone = False"
| "truthy (CBool b) = b"
| "truthy (CInt n) = (n \<noteq> 0)"
| "truthy (CStr s) = (s \<noteq> [])"
| "truthy (CList xs) = (xs \<noteq> [])"
| "truthy (CMap m) = (m \<noteq> [])"

text \<open>
  \<open>options.key\<close> and \<open>getattr(options, key)\<close>: a mapping raises AttributeError for a key
  it does not hold; the scalars, sequences and \<open>None\<close> have no configuration attributes.
\<close>

fun py_getattr :: "cfgval \<Rightarrow> string \<Rightarrow> error + cfgval" where
  "py_getattr (CMap m) k =
     (case map_of m k of None \<Rightarrow> Inl (AttributeError k) | Some v \<Rightarrow> Inr v)"
| "py_getattr v k = Inl (AttributeError k)"

text \<open>\<open>options.get(key, default)\<close>: defined on mappings only.\<close>

fun py_get :: "cfgval \<Rightarrow> string \<Rightarrow> cfgval \<Rightarrow> error + cfgval" where
  "py_get (CMap m) k d = Inr (case map_of m k of None \<Rightarrow> d | Some v \<Rightarrow> v)"
| "py_get v k d = Inl (AttributeError ''get'')"

text \<open>\<open>key in rules\<close> and \<open>rules[key]\<close> with a string key.\<close>

fun contains :: "string \<Rightarrow> string \<Rightarrow> bool" where
  "contains [] sub = (sub = [])"
| "contains (c # cs) sub = (take (length sub) (c # cs) = sub \<or> contains cs sub)"

fun py_contains :: "cfgval \<Rightarrow> string \<Rightarrow> error + bool" where
  "py_contains (CMap m) k = Inr (map_of m k \<noteq> None)"
| "py_contains (CList xs) k = Inr (List.member xs (CStr k))"
| "py_contains (CStr s) k = Inr (contains s k)"
| "py_contains v k = Inl TypeError"

fun py_getitem :: "cfgval \<Rightarrow> string \<Rightarrow> error + cfgval" where
  "py_getitem (CMap m) k =
     (case map_of m k of None \<Rightarrow> Inl (AttributeError k) | Some v \<Rightarrow> Inr v)"
| "py_getitem v k = Inl TypeError"

text \<open>Iteration (\<open>for item in v\<close>): a string yields its characters, a mapping its keys.\<close>

fun py_iter :: "cfgval \<Rightarrow> error + cfgval list" where
  "py_iter (CList xs) = Inr xs"
| "py_iter (CStr s) = Inr (map (\<lambda>c. CStr [c]) s)"
| "py_iter (CMap m) = Inr (map (\<lambda>kv. CStr (fst kv)) m)"
| "py_iter v = Inl TypeError"

text \<open>Sequencing of a computation that may raise.\<close>

fun ebind :: "error + 'a \<Rightarrow> ('a \<Rightarrow> error + 'b) \<Rightarrow> error + 'b" where
  "ebind (Inl e) f = Inl e"
| "ebind (Inr v) f = f v"

subsection \<open>The builtin \<open>int\<close>\<close>

definition is_space :: "char \<Rightarrow> bool" where
  "is_space c = List.member [CHR '' '', CHR 0x09, CHR 0x0A, CHR 0x0B, CHR 0x0C, CHR 0x0D] c"

definition digit_of :: "char \<Rightarrow> int option" where
  "digit_of c = map_of [(CHR ''0'', 0), (CHR ''1'', 1), (CHR ''2'', 2), (CHR ''3'', 3),
     (CHR ''4'', 4), (CHR ''5'', 5), (CHR ''6'', 6), (CHR ''7'', 7), (CHR ''8'', 8),
     (CHR ''9'', 9)] c"

text \<open>
  Decimal digits; a single underscore may stand between two digits. White space is the
  six ASCII characters; the configuration values here hold no floats, which \<open>int\<close>
  would truncate.
\<close>

fun digits_val :: "int \<Rightarrow> string \<Rightarrow> int option" where
  "digits_val acc [] = Some acc"
| "digits_val acc (c # cs) =
     (if c = CHR ''_'' then
        (case cs of [] \<Rightarrow> None
         | d # ds \<Rightarrow> (if digit_of d = None then None else digits_val acc cs))
      else (case digit_of c of None \<Rightarrow> None
            | Some d \<Rightarrow> digits_val (10 * acc + d) cs))"

definition unsigned_val :: "string \<Rightarrow> int option" where
  "unsigned_val s =
     (case s of [] \<Rightarrow> None
      | c # cs \<Rightarrow> (if digit_of c = None then None else digits_val 0 s))"

definition strip :: "string \<Rightarrow> string" where
  "strip s = rev (dropWhile is_space (rev (dropWhile is_space s)))"

definition int_of_string :: "string \<Rightarrow> int option" where
  "int_of_string s =
     (case strip s of [] \<Rightarrow> None
      | c # cs \<Rightarrow>
          (if c = CHR ''-'' then map_option uminus (unsigned_val cs)
           else if c = CHR ''+'' then unsigned_val cs
           else unsigned_val (c # cs)))"

fun py_int :: "cfgval \<Rightarrow> error + int" where
  "py_int (CInt n) = Inr n"
| "py_int (CBool b) = Inr (if b then 1 else 0)"
| "py_int (CStr s) = (case int_of_string s of None \<Rightarrow> Inl ValueError | Some n \<Rightarrow> Inr n)"
| "py_int v = Inl TypeError"

section \<open>helpers.py: rule helpers\<close>

text \<open>
  Lookup tables, spam scanners, password hashes and credentials are objects of the
  slimta and pysasl libraries. The model keeps what they were constructed from; what
  their methods answer is taken from the record \<open>externals\<close> below. \<open>load_lookup\<close>
  belongs to the application (module \<open>lookup\<close>) and is a parameter too.
\<close>

type_synonym attrs = "(string \<times> string) list"

datatype lookup =
    DictLookup "(cfgval \<times> attrs) list" string
  | RegexLookup string "(string \<times> attrs) list"
  | OtherLookup string

datatype scanner = SpamAssassin cfgval int

datatype pwhash = PasswordHash cfgval

datatype identity = HashedIdentity string string pwhash

record credentials =
  authcid :: string
  authzid :: "string option"
  verify :: "identity \<Rightarrow> bool"

record session =
  auth :: bool

record validators =
  session :: session

record externals =
  load_lookup :: "cfgval \<Rightarrow> error + lookup option"
  get_hash :: "cfgval \<Rightarrow> error + pwhash"
  str_format :: "string \<Rightarrow> error + string"
  re_compile :: "cfgval \<Rightarrow> error + string"
  lookup_address :: "lookup \<Rightarrow> string \<Rightarrow> (string \<times> string option) list \<Rightarrow> attrs option"
  scan :: "scanner \<Rightarrow> string \<Rightarrow> bool \<times> string"

definition get_spamassassin_object :: "cfgval \<Rightarrow> error + scanner" where
  "get_spamassassin_object options =
     ebind (py_get options ''host'' (CStr ''localhost'')) (\<lambda>host.
     ebind (py_get options ''port'' (CInt 783)) (\<lambda>p.
     ebind (py_int p) (\<lambda>port.
     Inr (SpamAssassin host port))))"

record RuleHelpers =
  banner :: cfgval
  dnsbl :: cfgval
  lookup_senders :: "lookup option"
  lookup_rcpts :: "lookup option"
  lookup_creds :: "lookup option"
  password_hash :: pwhash
  reject_spf :: cfgval
  scanner :: "scanner option"

text \<open>\<open>dict.fromkeys(items, {})\<close>: every item is a key of the same empty attribute set.\<close>

definition fromkeys :: "cfgval list \<Rightarrow> attrs \<Rightarrow> (cfgval \<times> attrs) list" where
  "fromkeys items v = map (\<lambda>k. (k, v)) items"

text \<open>The loop \<open>for item in rules[regex_section]: lookup.add_regex(item, {})\<close>.\<close>

fun add_regexes ::
  "externals \<Rightarrow> cfgval list \<Rightarrow> (string \<times> attrs) list \<Rightarrow> error + (string \<times> attrs) list" where
  "add_regexes ext [] acc = Inr acc"
| "add_regexes ext (item # items) acc =
     ebind (re_compile ext item) (\<lambda>r. add_regexes ext items (acc @ [(r, [])]))"

text \<open>\<open>RuleHelpers._get_lookup\<close>; falling off the end of the method returns \<open>None\<close>.\<close>

definition get_lookup ::
  "externals \<Rightarrow> cfgval \<Rightarrow> string \<Rightarrow> string \<Rightarrow> string \<Rightarrow> error + lookup option" where
  "get_lookup ext rules lookup_section list_section regex_section =
     ebind (py_contains rules lookup_section) (\<lambda>has_lookup.
       if has_lookup then
         ebind (py_getitem rules lookup_section) (load_lookup ext)
       else
         ebind (py_contains rules list_section) (\<lambda>has_list.
           if has_list then
             ebind (py_getitem rules list_section) (\<lambda>v.
             ebind (py_iter v) (\<lambda>items.
             Inr (Some (DictLookup (fromkeys items []) ''{address}''))))
           else
             ebind (py_contains rules regex_section) (\<lambda>has_regex.
               if has_regex then
                 ebind (py_getitem rules regex_section) (\<lambda>v.
                 ebind (py_iter v) (\<lambda>items.
                 ebind (add_regexes ext items []) (\<lambda>regexes.
                 Inr (Some (RegexLookup ''{address}'' regexes)))))
               else Inr None)))"

text \<open>\<open>RuleHelpers._get_scanner\<close>.\<close>

definition get_scanner :: "cfgval \<Rightarrow> error + scanner option" where
  "get_scanner options =
     (if options = CNone then Inr None
      else ebind (py_get options ''type'' (CStr ''spamassassin'')) (\<lambda>type.
        if type = CStr ''spamassassin'' then
          ebind (get_spamassassin_object options) (\<lambda>sc. Inr (Some sc))
        else Inr None))"

definition fill_hostname_template :: "externals \<Rightarrow> cfgval \<Rightarrow> error + cfgval" where
  "fill_hostname_template ext val =
     (if \<not> truthy val then Inr val
      else (case val of
              CStr s \<Rightarrow> ebind (str_format ext s) (\<lambda>r. Inr (CStr r))
            | _ \<Rightarrow> Inl (AttributeError ''format'')))"

text \<open>\<open>RuleHelpers.__init__\<close>; the default of \<open>options.get('rules', {})\<close> is an empty dict.\<close>

definition RuleHelpers_init :: "externals \<Rightarrow> cfgval \<Rightarrow> error + RuleHelpers" where
  "RuleHelpers_init ext options =
     ebind (py_get options ''rules'' (CMap [])) (\<lambda>rules.
     ebind (py_getattr rules ''banner'') (\<lambda>b.
     ebind (fill_hostname_template ext b) (\<lambda>banner'.
     ebind (py_getattr rules ''dnsbl'') (\<lambda>dnsbl'.
     ebind (get_lookup ext rules ''lookup_senders'' ''only_senders'' ''regex_senders'')
       (\<lambda>senders.
     ebind (get_lookup ext rules ''lookup_recipients'' ''only_recipients''
              ''regex_recipients'') (\<lambda>rcpts.
     ebind (py_getattr rules ''lookup_credentials'') (\<lambda>lc.
     ebind (load_lookup ext lc) (\<lambda>creds.
     ebind (py_getattr rules ''passlib_config'') (\<lambda>pc.
     ebind (get_hash ext pc) (\<lambda>hash.
     ebind (py_getattr rules ''reject_spf'') (\<lambda>spf.
     ebind (py_getattr rules ''reject_spam'') (\<lambda>rs.
     ebind (get_scanner rs) (\<lambda>sc.
     Inr \<lparr> banner = banner', dnsbl = dnsbl', lookup_senders = senders,
           lookup_rcpts = rcpts, lookup_creds = creds, password_hash = hash,
           reject_spf = spf, scanner = sc \<rparr>)))))))))))))"

text \<open>
  \<open>RuleHelpers.check_credentials\<close>. A lookup object is always true in a condition, so
  \<open>not self.lookup_creds\<close> holds exactly for \<open>None\<close>; \<open>not ret\<close> holds for \<open>None\<close> and for
  an empty result.
\<close>

definition check_credentials :: "externals \<Rightarrow> RuleHelpers \<Rightarrow> credentials \<Rightarrow> bool" where
  "check_credentials ext self creds =
     (case lookup_creds self of
        None \<Rightarrow> False
      | Some lc \<Rightarrow>
          (case lookup_address ext lc (authcid creds) [(''authzid'', authzid creds)] of
             None \<Rightarrow> False
           | Some ret \<Rightarrow>
               (if ret = [] then False
                else (case map_of ret ''password'' of
                        None \<Rightarrow> False
                      | Some pw \<Rightarrow>
                          (if \<not> verify creds
                                 (HashedIdentity (authcid creds) pw (password_hash self))
                           then False else True)))))"

text \<open>\<open>RuleHelpers.is_sender_ok\<close>.\<close>

definition is_sender_ok :: "externals \<Rightarrow> RuleHelpers \<Rightarrow> validators \<Rightarrow> string \<Rightarrow> bool" where
  "is_sender_ok ext self vs sender =
     (case lookup_senders self of
        Some ls \<Rightarrow> lookup_address ext ls sender [] \<noteq> None
      | None \<Rightarrow>
          (if lookup_creds self \<noteq> None \<and> \<not> auth (session vs) then False else True))"

text \<open>\<open>RuleHelpers.is_recipient_ok\<close>.\<close>

definition is_recipient_ok :: "externals \<Rightarrow> RuleHelpers \<Rightarrow> string \<Rightarrow> bool" where
  "is_recipient_ok ext self recipient =
     (case lookup_rcpts self of
        Some lr \<Rightarrow> lookup_address ext lr recipient [] \<noteq> None
      | None \<Rightarrow> True)"

text \<open>\<open>RuleHelpers.reject_spam\<close>.\<close>

definition reject_spam :: "externals \<Rightarrow> RuleHelpers \<Rightarrow> string \<Rightarrow> bool" where
  "reject_spam ext self data =
     (case scanner self of
        Some sc \<Rightarrow> fst (scan ext sc data)
      | None \<Rightarrow> False)"

section \<open>helpers.py: queue policies and the backoff function\<close>

text \<open>
  The policy objects of the slimta library, with the arguments they are constructed
  from. The queue is the ordered list of the policies added to it so far.
\<close>

datatype policy =
    AddDateHeader
  | AddMessageIdHeader cfgval
  | AddReceivedHeader
  | RecipientSplit
  | RecipientDomainSplit
  | LookupPolicy lookup cfgval cfgval
  | Forward "(string \<times> cfgval) list"
  | SpamAssassinPolicy scanner
  | AddDKIMHeader cfgval

text \<open>
  \<open>dict(v).items()\<close>: a mapping gives its entries; any other iterable has to yield
  two-element items, a later entry of a key replacing the value of an earlier one.
\<close>

definition pair_of :: "cfgval \<Rightarrow> error + cfgval \<times> cfgval" where
  "pair_of v =
     ebind (py_iter v) (\<lambda>xs. case xs of [a, b] \<Rightarrow> Inr (a, b) | _ \<Rightarrow> Inl ValueError)"

fun pairs_of :: "cfgval list \<Rightarrow> error + (cfgval \<times> cfgval) list" where
  "pairs_of [] = Inr []"
| "pairs_of (v # vs) =
     ebind (pair_of v) (\<lambda>p. ebind (pairs_of vs) (\<lambda>ps. Inr (p # ps)))"

definition py_dict_items :: "cfgval \<Rightarrow> error + (cfgval \<times> cfgval) list" where
  "py_dict_items v =
     (case v of
        CMap m \<Rightarrow> Inr (map (\<lambda>kv. (CStr (fst kv), snd kv)) m)
      | _ \<Rightarrow> ebind (py_iter v) (\<lambda>xs. ebind (pairs_of xs) (\<lambda>ps.
               Inr (foldl (\<lambda>d kv. AList.update (fst kv) (snd kv) d) [] ps))))"

text \<open>The loop \<open>for pattern, repl in ...: forward.add_mapping(pattern, repl)\<close>.\<close>

fun add_mappings ::
  "externals \<Rightarrow> (cfgval \<times> cfgval) list \<Rightarrow> (string \<times> cfgval) list
    \<Rightarrow> error + (string \<times> cfgval) list" where
  "add_mappings ext [] acc = Inr acc"
| "add_mappings ext (kv # kvs) acc =
     ebind (re_compile ext (fst kv)) (\<lambda>r. add_mappings ext kvs (acc @ [(r, snd kv)]))"

text \<open>
  One pass of the loop body of \<open>add_queue_policies\<close>: the policy that the entry adds to the
  queue. The chain of \<open>elif\<close> has no final \<open>else\<close>, so an entry whose type matches no
  branch adds nothing and the loop goes on.
\<close>

definition policy_of :: "externals \<Rightarrow> cfgval \<Rightarrow> error + policy option" where
  "policy_of ext policy =
     ebind (py_getattr policy ''type'') (\<lambda>type.
       if type = CStr ''add_date_header'' then Inr (Some AddDateHeader)
       else if type = CStr ''add_messageid_header'' then
         ebind (py_getattr policy ''hostname'') (\<lambda>hostname.
         Inr (Some (AddMessageIdHeader hostname)))
       else if type = CStr ''add_received_header'' then Inr (Some AddReceivedHeader)
       else if type = CStr ''recipient_split'' then Inr (Some RecipientSplit)
       else if type = CStr ''recipient_domain_split'' then Inr (Some RecipientDomainSplit)
       else if type = CStr ''lookup'' then
         ebind (py_get policy ''lookup'' (CMap [])) (\<lambda>lo.
         ebind (load_lookup ext lo) (\<lambda>lookup.
         ebind (py_get policy ''on_sender'' (CBool False)) (\<lambda>on_sender.
         ebind (py_get policy ''on_recipients'' (CBool True)) (\<lambda>on_rcpts.
         case lookup of
           Some l \<Rightarrow> Inr (Some (LookupPolicy l on_sender on_rcpts))
         | None \<Rightarrow> Inl (ConfigValidationError ''Incomplete lookup policy section'')))))
       else if type = CStr ''forward'' then
         ebind (py_get policy ''mapping'' (CMap [])) (\<lambda>mp.
         ebind (py_dict_items mp) (\<lambda>kvs.
         ebind (add_mappings ext kvs []) (\<lambda>mapping.
         Inr (Some (Forward mapping)))))
       else if type = CStr ''spamassassin'' then
         ebind (get_spamassassin_object policy) (\<lambda>sc. Inr (Some (SpamAssassinPolicy sc)))
       else if type = CStr ''add_dkim_header'' then
         ebind (py_get policy ''dkim'' (CMap [])) (\<lambda>dkim. Inr (Some (AddDKIMHeader dkim)))
       else Inr None)"

text \<open>
  The loop over the entries. A raise leaves the loop at once; the policies added before
  it stay on the queue, since \<open>queue.add_policy\<close> has already mutated it.
\<close>

fun add_queue_policies_loop ::
  "externals \<Rightarrow> policy list \<Rightarrow> cfgval list \<Rightarrow> error option \<times> policy list" where
  "add_queue_policies_loop ext queue [] = (None, queue)"
| "add_queue_policies_loop ext queue (policy # rest) =
     (case policy_of ext policy of
        Inl e \<Rightarrow> (Some e, queue)
      | Inr None \<Rightarrow> add_queue_policies_loop ext queue rest
      | Inr (Some p) \<Rightarrow> add_queue_policies_loop ext (queue @ [p]) rest)"

definition add_queue_policies ::
  "externals \<Rightarrow> policy list \<Rightarrow> cfgval \<Rightarrow> error option \<times> policy list" where
  "add_queue_policies ext queue policy_options =
     (case py_iter policy_options of
        Inl e \<Rightarrow> (Some e, queue)
      | Inr entries \<Rightarrow> add_queue_policies_loop ext queue entries)"

text \<open>\<open>'lambda x: ' + delay\<close>: concatenation is defined for a string operand only.\<close>

fun py_str_add :: "string \<Rightarrow> cfgval \<Rightarrow> error + string" where
  "py_str_add a (CStr b) = Inr (a @ b)"
| "py_str_add a v = Inl TypeError"

text \<open>
  \<open>build_backoff_function\<close>. The builtin \<open>eval\<close>, applied to the text of a one-argument
  lambda in the namespace of the math module, is the parameter \<open>py_eval\<close>: it fails or
  gives the compiled function, whose calls may fail in turn. \<open>None\<close> as the result of the
  backoff function is the signal to stop retrying.
\<close>

definition no_retries :: "'e \<Rightarrow> int \<Rightarrow> error + 'n option" where
  "no_retries envelope attempts = Inr None"

definition backoff :: "int \<Rightarrow> (int \<Rightarrow> error + 'n) \<Rightarrow> 'e \<Rightarrow> int \<Rightarrow> error + 'n option" where
  "backoff maximum delay_func envelope attempts =
     (if attempts > maximum then Inr None
      else ebind (delay_func attempts) (\<lambda>d. Inr (Some d)))"

definition build_backoff_function ::
  "(string \<Rightarrow> error + (int \<Rightarrow> error + 'n)) \<Rightarrow> cfgval
    \<Rightarrow> error + ('e \<Rightarrow> int \<Rightarrow> error + 'n option)" where
  "build_backoff_function py_eval retry =
     (if \<not> truthy retry then Inr no_retries
      else
        ebind (py_get retry ''maximum'' (CInt 0)) (\<lambda>mv.
        ebind (py_int mv) (\<lambda>maximum.
        ebind (py_get retry ''delay'' (CStr ''300'')) (\<lambda>delay.
        ebind (py_str_add ''lambda x: '' delay) (\<lambda>src.
        ebind (py_eval src) (\<lambda>delay_func.
        Inr (backoff maximum delay_func)))))))"

section \<open>state.py: the registries of relays, queues and edges\<close>

text \<open>
  Relays, queues, edges and the celery application are objects of external libraries.
  The model keeps the arguments each one was constructed with in \<open>heap\<close>, in order of
  construction; a reference to an object is its index there, so two references denote
  the identical instance exactly when they are equal. \<open>started\<close> lists the edges on
  which \<open>start()\<close> has been called. \<open>relay_built\<close> is not part of the program: it
  records, most recent first, the section names for which \<open>_start_relay\<close> has called a
  relay constructor, so that the number of constructions per name can be stated.
\<close>

type_synonym ref = nat

datatype obj =
    MxSmtpRelay
  | StaticSmtpRelay cfgval cfgval
  | MaildropRelay cfgval
  | CeleryApp cfgval
  | CeleryQueue ref ref string
  | SmtpEdge cfgval int "ref option"

record SlimtaState =
  cfg :: cfgval
  edges :: "string \<rightharpoonup> ref"
  queues :: "string \<rightharpoonup> ref option"
  relays :: "string \<rightharpoonup> ref"
  priv_celery :: "ref option"
  heap :: "obj list"
  started :: "ref list"
  relay_built :: "string list"

text \<open>\<open>SlimtaState.__init__\<close>, as far as the registries are concerned.\<close>

definition SlimtaState_init :: SlimtaState where
  "SlimtaState_init =
     \<lparr> cfg = CNone, edges = Map.empty, queues = Map.empty, relays = Map.empty,
       priv_celery = None, heap = [], started = [], relay_built = [] \<rparr>"

text \<open>
  \<open>load_config\<close>; \<open>parsed\<close> is what \<open>_check_configs\<close> returns after reading the files, the
  configuration tree or \<open>None\<close>.
\<close>

definition load_config :: "cfgval \<Rightarrow> SlimtaState \<Rightarrow> bool \<times> SlimtaState" where
  "load_config parsed s =
     (if truthy (cfg s) then (True, s) else (truthy parsed, s \<lparr> cfg := parsed \<rparr>))"

text \<open>\<open>if not options: options = getattr(self.cfg.<kind>, name)\<close>.\<close>

definition section_options :: "string \<Rightarrow> string \<Rightarrow> cfgval \<Rightarrow> SlimtaState \<Rightarrow> error + cfgval" where
  "section_options kind name options s =
     (if \<not> truthy options then
        ebind (py_getattr (cfg s) kind) (\<lambda>sec. py_getattr sec name)
      else Inr options)"

text \<open>A constructor call: the new object gets the next reference.\<close>

definition alloc :: "obj \<Rightarrow> SlimtaState \<Rightarrow> ref \<times> SlimtaState" where
  "alloc ob s = (length (heap s), s \<lparr> heap := heap s @ [ob] \<rparr>)"

text \<open>The dispatch of \<open>_start_relay\<close> on \<open>options.type\<close>, up to the constructor call.\<close>

definition new_relay_of :: "cfgval \<Rightarrow> error + obj" where
  "new_relay_of options =
     ebind (py_getattr options ''type'') (\<lambda>type.
       if type = CStr ''mx'' then Inr MxSmtpRelay
       else if type = CStr ''static'' then
         ebind (py_getattr options ''host'') (\<lambda>host.
         ebind (py_get options ''port'' (CInt 25)) (\<lambda>port.
         Inr (StaticSmtpRelay host port)))
       else if type = CStr ''maildrop'' then
         ebind (py_get options ''executable'' CNone) (\<lambda>executable.
         Inr (MaildropRelay executable))
       else
         ebind (py_str_add ''relay type does not exist: '' type) (\<lambda>msg.
         Inl (ConfigError msg)))"

text \<open>\<open>SlimtaState._start_relay\<close>.\<close>

definition start_relay ::
  "string \<Rightarrow> cfgval \<Rightarrow> SlimtaState \<Rightarrow> (error + ref) \<times> SlimtaState" where
  "start_relay name options s =
     (case relays s name of
        Some r \<Rightarrow> (Inr r, s)
      | None \<Rightarrow>
          (case ebind (section_options ''relay'' name options s) new_relay_of of
             Inl e \<Rightarrow> (Inl e, s)
           | Inr ob \<Rightarrow>
               (let (new_relay, s1) = alloc ob s
                in (Inr new_relay,
                    s1 \<lparr> relays := (relays s1)(name \<mapsto> new_relay),
                         relay_built := name # relay_built s1 \<rparr>))))"

text \<open>
  A builder called with a name read from the configuration and no options. A name
  that is not a string is in no registry, and \<open>getattr\<close> refuses it with a TypeError
  after \<open>self.cfg.<kind>\<close> has been read.
\<close>

definition bad_name :: "string \<Rightarrow> SlimtaState \<Rightarrow> error" where
  "bad_name kind s =
     (case py_getattr (cfg s) kind of Inl e \<Rightarrow> e | Inr sec \<Rightarrow> TypeError)"

definition start_relay_named ::
  "cfgval \<Rightarrow> SlimtaState \<Rightarrow> (error + ref) \<times> SlimtaState" where
  "start_relay_named v s =
     (case v of
        CStr name \<Rightarrow> start_relay name CNone s
      | _ \<Rightarrow> (Inl (bad_name ''relay'' s), s))"

text \<open>The property \<open>celery\<close>; \<open>get_celery_app\<close> (module \<open>celery\<close>) builds the application.\<close>

definition celery :: "SlimtaState \<Rightarrow> ref \<times> SlimtaState" where
  "celery s =
     (case priv_celery s of
        Some app \<Rightarrow> (app, s)
      | None \<Rightarrow>
          (let (app, s1) = alloc (CeleryApp (cfg s)) s
           in (app, s1 \<lparr> priv_celery := Some app \<rparr>)))"

text \<open>
  \<open>SlimtaState._start_queue\<close>. The default queue is the placeholder \<open>None\<close>, which is
  stored in the registry like any other value.
\<close>

definition start_queue ::
  "string \<Rightarrow> cfgval \<Rightarrow> SlimtaState \<Rightarrow> (error + ref option) \<times> SlimtaState" where
  "start_queue name options s =
     (case queues s name of
        Some q \<Rightarrow> (Inr q, s)
      | None \<Rightarrow>
          (case section_options ''queue'' name options s of
             Inl e \<Rightarrow> (Inl e, s)
           | Inr options \<Rightarrow>
               (case (if \<not> truthy options then Inr True
                      else ebind (py_get options ''type'' (CStr ''default''))
                             (\<lambda>type. Inr (type = CStr ''default''))) of
                  Inl e \<Rightarrow> (Inl e, s)
                | Inr True \<Rightarrow> (Inr None, s \<lparr> queues := (queues s)(name \<mapsto> None) \<rparr>)
                | Inr False \<Rightarrow>
                    (case py_getattr options ''type'' of
                       Inl e \<Rightarrow> (Inl e, s)
                     | Inr type \<Rightarrow>
                         if type = CStr ''celery'' then
                           (case py_get options ''relay'' CNone of
                              Inl e \<Rightarrow> (Inl e, s)
                            | Inr relay_name \<Rightarrow>
                                if \<not> truthy relay_name then
                                  (Inl (ConfigError
                                     ''queue sections must be given a relay name''), s)
                                else
                                  (case start_relay_named relay_name s of
                                     (Inl e, s1) \<Rightarrow> (Inl e, s1)
                                   | (Inr relay, s1) \<Rightarrow>
                                       (let (app, s2) = celery s1;
                                            (new_queue, s3) =
                                              alloc (CeleryQueue app relay name) s2
                                        in (Inr (Some new_queue),
                                            s3 \<lparr> queues :=
                                              (queues s3)(name \<mapsto> Some new_queue) \<rparr>))))
                         else
                           (case py_str_add ''queue type does not exist: '' type of
                              Inl e \<Rightarrow> (Inl e, s)
                            | Inr msg \<Rightarrow> (Inl (ConfigError msg), s))))))"

definition start_queue_named ::
  "cfgval \<Rightarrow> SlimtaState \<Rightarrow> (error + ref option) \<times> SlimtaState" where
  "start_queue_named v s =
     (case v of
        CStr name \<Rightarrow> start_queue name CNone s
      | _ \<Rightarrow> (Inl (bad_name ''queue'' s), s))"

text \<open>
  \<open>x[0]\<close>, with the errors of the Python sequence types; the sequence class of the
  configuration library may report an empty sequence with an error of its own.
\<close>

fun py_index0 :: "cfgval \<Rightarrow> error + cfgval" where
  "py_index0 (CList []) = Inl IndexError"
| "py_index0 (CList (x # xs)) = Inr x"
| "py_index0 (CStr []) = Inl IndexError"
| "py_index0 (CStr (c # cs)) = Inr (CStr [c])"
| "py_index0 (CMap m) = Inl (AttributeError ''0'')"
| "py_index0 v = Inl TypeError"

text \<open>
  The address of \<open>_start_edge\<close>: \<open>options.listeners[0]\<close> is read for the interface and
  again for the port, with the same result.
\<close>

definition listener_address :: "cfgval \<Rightarrow> error + cfgval \<times> int" where
  "listener_address options =
     ebind (py_getattr options ''listeners'') (\<lambda>listeners.
     ebind (py_index0 listeners) (\<lambda>listener.
     ebind (py_get listener ''interface'' (CStr ''127.0.0.1'')) (\<lambda>ip.
     ebind (py_get listener ''port'' (CInt 25)) (\<lambda>p.
     ebind (py_int p) (\<lambda>port.
     Inr (ip, port))))))"

text \<open>\<open>SlimtaState._start_edge\<close>.\<close>

definition start_edge ::
  "string \<Rightarrow> cfgval \<Rightarrow> SlimtaState \<Rightarrow> (error + ref) \<times> SlimtaState" where
  "start_edge name options s =
     (case edges s name of
        Some e \<Rightarrow> (Inr e, s)
      | None \<Rightarrow>
          (case section_options ''edge'' name options s of
             Inl e \<Rightarrow> (Inl e, s)
           | Inr options \<Rightarrow>
               (case py_getattr options ''type'' of
                  Inl e \<Rightarrow> (Inl e, s)
                | Inr type \<Rightarrow>
                    if type = CStr ''smtp'' then
                      (case listener_address options of
                         Inl e \<Rightarrow> (Inl e, s)
                       | Inr (ip, port) \<Rightarrow>
                           (case py_get options ''queue'' CNone of
                              Inl e \<Rightarrow> (Inl e, s)
                            | Inr queue_name \<Rightarrow>
                                if \<not> truthy queue_name then
                                  (Inl (ConfigError
                                     ''edge sections must be given a queue name''), s)
                                else
                                  (case start_queue_named queue_name s of
                                     (Inl e, s1) \<Rightarrow> (Inl e, s1)
                                   | (Inr queue, s1) \<Rightarrow>
                                       (let (new_edge, s2) =
                                              alloc (SmtpEdge ip port queue) s1;
                                            s3 = s2 \<lparr> started := started s2 @ [new_edge] \<rparr>
                                        in (Inr new_edge,
                                            s3 \<lparr> edges :=
                                              (edges s3)(name \<mapsto> new_edge) \<rparr>)))))
                    else
                      (case py_str_add ''edge type does not exist: '' type of
                         Inl e \<Rightarrow> (Inl e, s)
                       | Inr msg \<Rightarrow> (Inl (ConfigError msg), s)))))"

text \<open>
  Any sequence of calls on the state: loading the configuration, the three builders with
  arbitrary names and options, and the celery property. \<open>start_edges\<close> and
  \<open>start_celery_queues\<close> are loops of such builder calls.
\<close>

datatype call =
    LoadConfig cfgval
  | StartRelay string cfgval
  | StartQueue string cfgval
  | StartEdge string cfgval
  | Celery

fun do_call :: "SlimtaState \<Rightarrow> call \<Rightarrow> SlimtaState" where
  "do_call s (LoadConfig parsed) = snd (load_config parsed s)"
| "do_call s (StartRelay name options) = snd (start_relay name options s)"
| "do_call s (StartQueue name options) = snd (start_queue name options s)"
| "do_call s (StartEdge name options) = snd (start_edge name options s)"
| "do_call s Celery = snd (celery s)"

definition run :: "call list \<Rightarrow> SlimtaState \<Rightarrow> SlimtaState" where
  "run calls s = foldl do_call s calls"

text \<open>
  The invariant behind the count of relay constructions: no name has been built twice,
  every name that has been built is in the registry, and \<open>relay_built\<close> has one entry
  for each relay object in the heap.
\<close>

fun is_relay :: "obj \<Rightarrow> bool" where
  "is_relay MxSmtpRelay = True"
| "is_relay (StaticSmtpRelay host port) = True"
| "is_relay (MaildropRelay executable) = True"
| "is_relay ob = False"

definition relay_inv :: "SlimtaState \<Rightarrow> bool" where
  "relay_inv s =
     (distinct (relay_built s) \<and>
      list_all (\<lambda>n. relays s n \<noteq> None) (relay_built s) \<and>
      length (filter is_relay (heap s)) = length (relay_built s))"
section \<open>Concrete data for the worked instances\<close>

text \<open>
  An instance of the external collaborators in which every lookup is a dictionary keyed
  by the address, and a few rule sets and configurations; the instances of the theorems
  below are evaluated on them.
\<close>

definition dict_externals :: externals where
  "dict_externals =
     \<lparr> load_lookup = (\<lambda>v. case v of
           CMap m \<Rightarrow> (if m = [] then Inr None
                      else Inr (Some (DictLookup (map (\<lambda>kv. (CStr (fst kv), [(''password'', ''hash'')])) m) ''{address}'')))
         | CNone \<Rightarrow> Inr None
         | _ \<Rightarrow> Inl (ConfigValidationError ''lookup'')),
       get_hash = (\<lambda>v. Inr (PasswordHash v)),
       str_format = (\<lambda>s. Inr s),
       re_compile = (\<lambda>v. case v of CStr s \<Rightarrow> Inr s | _ \<Rightarrow> Inl TypeError),
       lookup_address = (\<lambda>l a extra. case l of DictLookup d t \<Rightarrow> map_of d (CStr a) | _ \<Rightarrow> None),
       scan = (\<lambda>sc d. (contains d ''viagra'', '''')) \<rparr>"

definition edge_rules :: "(string \<times> cfgval) list \<Rightarrow> cfgval" where
  "edge_rules extra =
     CMap [(''rules'', CMap ([(''banner'', CNone), (''dnsbl'', CNone),
       (''passlib_config'', CNone), (''reject_spf'', CNone)] @ extra))]"

definition unauthenticated :: validators where
  "unauthenticated = \<lparr> session = \<lparr> auth = False \<rparr> \<rparr>"

definition authenticated :: validators where
  "authenticated = \<lparr> session = \<lparr> auth = True \<rparr> \<rparr>"

definition allow_alice :: RuleHelpers where
  "allow_alice = \<lparr> banner = CNone, dnsbl = CNone,
     lookup_senders = Some (DictLookup [(CStr ''alice@example.com'', [])] ''{address}''),
     lookup_rcpts = None,
     lookup_creds = Some (DictLookup [(CStr ''bob'', [(''password'', ''hash'')])] ''{address}''),
     password_hash = PasswordHash CNone, reject_spf = CNone, scanner = None \<rparr>"

definition creds_only :: RuleHelpers where
  "creds_only = allow_alice \<lparr> lookup_senders := None \<rparr>"

definition no_rules :: RuleHelpers where
  "no_rules = creds_only \<lparr> lookup_creds := None \<rparr>"


definition bob_creds :: credentials where
  "bob_creds = \<lparr> authcid = ''bob'', authzid = None,
     verify = (\<lambda>i. i = HashedIdentity ''bob'' ''hash'' (PasswordHash CNone)) \<rparr>"

definition wrong_creds :: credentials where
  "wrong_creds = bob_creds \<lparr> verify := (\<lambda>i. False) \<rparr>"

definition eve_creds :: credentials where
  "eve_creds = bob_creds \<lparr> authcid := ''eve'' \<rparr>"

definition quota_only :: RuleHelpers where
  "quota_only = allow_alice \<lparr> lookup_creds :=
     Some (DictLookup [(CStr ''bob'', [(''quota'', ''1'')])] ''{address}'') \<rparr>"

definition sender_rules :: "(string \<times> cfgval) list" where
  "sender_rules =
     [(''regex_senders'', CList [CStr ''^sales@'']),
      (''only_senders'', CList [CStr ''alice@example.com'']),
      (''lookup_senders'', CMap [(''carol@example.com'', CStr ''secret'')])]"

definition policy_entries :: cfgval where
  "policy_entries = CList
     [CMap [(''type'', CStr ''add_date_header'')],
      CMap [(''type'', CStr ''lookup''), (''lookup'', CMap [])],
      CMap [(''type'', CStr ''add_received_header'')]]"

subsection \<open>An evaluator for integer delay expressions\<close>

text \<open>
  An instance of \<open>py_eval\<close> for the worked instance of the backoff function: it reads
  \<open>lambda x: e\<close> where \<open>e\<close> is built from decimal literals, \<open>x\<close>, \<open>+\<close>, \<open>-\<close>, \<open>*\<close> and
  parentheses, and rejects every other text.
\<close>

datatype token = TNum int | TX | TPlus | TMinus | TStar | TLParen | TRParen

datatype expr = Num int | Var | Neg expr | Add expr expr | Sub expr expr | Mul expr expr

definition symbol_of :: "char \<Rightarrow> token option" where
  "symbol_of c = map_of [(CHR ''x'', TX), (CHR ''+'', TPlus), (CHR ''-'', TMinus),
     (CHR ''*'', TStar), (CHR ''('', TLParen), (CHR '')'', TRParen)] c"

definition flush :: "int option \<Rightarrow> token list" where
  "flush acc = (case acc of None \<Rightarrow> [] | Some n \<Rightarrow> [TNum n])"

fun lex :: "int option \<Rightarrow> string \<Rightarrow> token list option" where
  "lex acc [] = Some (flush acc)"
| "lex acc (c # cs) =
     (case digit_of c of
        Some d \<Rightarrow> lex (Some (10 * (case acc of None \<Rightarrow> 0 | Some n \<Rightarrow> n) + d)) cs
      | None \<Rightarrow>
          (if is_space c then map_option (append (flush acc)) (lex None cs)
           else (case symbol_of c of
                   None \<Rightarrow> None
                 | Some t \<Rightarrow> map_option (\<lambda>ts. flush acc @ t # ts) (lex None cs))))"

fun parse_sum :: "nat \<Rightarrow> token list \<Rightarrow> (expr \<times> token list) option"
  and sum_rest :: "nat \<Rightarrow> expr \<Rightarrow> token list \<Rightarrow> (expr \<times> token list) option"
  and parse_product :: "nat \<Rightarrow> token list \<Rightarrow> (expr \<times> token list) option"
  and product_rest :: "nat \<Rightarrow> expr \<Rightarrow> token list \<Rightarrow> (expr \<times> token list) option"
  and parse_atom :: "nat \<Rightarrow> token list \<Rightarrow> (expr \<times> token list) option" where
  "parse_sum 0 ts = None"
| "parse_sum (Suc n) ts =
     (case parse_product n ts of None \<Rightarrow> None | Some (e, r) \<Rightarrow> sum_rest n e r)"
| "sum_rest 0 e ts = None"
| "sum_rest (Suc n) e (TPlus # ts) =
     (case parse_product n ts of None \<Rightarrow> None | Some (e', r) \<Rightarrow> sum_rest n (Add e e') r)"
| "sum_rest (Suc n) e (TMinus # ts) =
     (case parse_product n ts of None \<Rightarrow> None | Some (e', r) \<Rightarrow> sum_rest n (Sub e e') r)"
| "sum_rest (Suc n) e ts = Some (e, ts)"
| "parse_product 0 ts = None"
| "parse_product (Suc n) ts =
     (case parse_atom n ts of None \<Rightarrow> None | Some (e, r) \<Rightarrow> product_rest n e r)"
| "product_rest 0 e ts = None"
| "product_rest (Suc n) e (TStar # ts) =
     (case parse_atom n ts of None \<Rightarrow> None | Some (e', r) \<Rightarrow> product_rest n (Mul e e') r)"
| "product_rest (Suc n) e ts = Some (e, ts)"
| "parse_atom 0 ts = None"
| "parse_atom (Suc n) (TNum k # ts) = Some (Num k, ts)"
| "parse_atom (Suc n) (TX # ts) = Some (Var, ts)"
| "parse_atom (Suc n) (TMinus # ts) =
     (case parse_atom n ts of None \<Rightarrow> None | Some (e, r) \<Rightarrow> Some (Neg e, r))"
| "parse_atom (Suc n) (TLParen # ts) =
     (case parse_sum n ts of
        Some (e, TRParen # r) \<Rightarrow> Some (e, r)
      | _ \<Rightarrow> None)"
| "parse_atom (Suc n) ts = None"

fun eval_expr :: "expr \<Rightarrow> int \<Rightarrow> int" where
  "eval_expr (Num k) x = k"
| "eval_expr Var x = x"
| "eval_expr (Neg a) x = - eval_expr a x"
| "eval_expr (Add a b) x = eval_expr a x + eval_expr b x"
| "eval_expr (Sub a b) x = eval_expr a x - eval_expr b x"
| "eval_expr (Mul a b) x = eval_expr a x * eval_expr b x"

definition parse_lambda :: "string \<Rightarrow> expr option" where
  "parse_lambda src =
     (if take 10 src = ''lambda x: '' then
        (case lex None (drop 10 src) of
           None \<Rightarrow> None
         | Some ts \<Rightarrow>
             (case parse_sum (Suc (3 * length ts)) ts of
                Some (e, []) \<Rightarrow> Some e
              | _ \<Rightarrow> None))
      else None)"

definition arith_eval :: "string \<Rightarrow> error + (int \<Rightarrow> error + int)" where
  "arith_eval src =
     (case parse_lambda src of
        None \<Rightarrow> Inl (ExternalError ''SyntaxError'')
      | Some e \<Rightarrow> Inr (\<lambda>x. Inr (eval_expr e x)))"

subsection \<open>A configuration tree\<close>

definition demo_cfg :: cfgval where
  "demo_cfg = CMap
     [(''relay'', CMap
        [(''outbound'', CMap [(''type'', CStr ''mx'')]),
         (''pigeons'', CMap [(''type'', CStr ''carrier'')])]),
      (''queue'', CMap
        [(''inbound'', CMap [(''type'', CStr ''celery''), (''relay'', CStr ''outbound'')]),
         (''bulk'', CMap [(''type'', CStr ''celery''), (''relay'', CStr ''outbound'')]),
         (''plain'', CMap [(''type'', CStr ''default'')]),
         (''spool'', CMap [(''type'', CStr ''disk'')])]),
      (''edge'', CMap
        [(''mail'', CMap [(''type'', CStr ''smtp''), (''queue'', CStr ''inbound''),
           (''listeners'', CList [CMap []])]),
         (''submission'', CMap [(''type'', CStr ''smtp''),
           (''listeners'', CList [CMap [(''interface'', CStr ''0.0.0.0''),
              (''port'', CStr ''587'')]])]),
         (''web'', CMap [(''type'', CStr ''http''), (''queue'', CStr ''plain'')])])]"

definition loaded :: SlimtaState where
  "loaded = SlimtaState_init \<lparr> cfg := demo_cfg \<rparr>"
section \<open>Properties of the rule helpers\<close>

lemma get_lookup_absent:
  "map_of m a = None \<Longrightarrow> map_of m b = None \<Longrightarrow> map_of m c = None \<Longrightarrow>
   get_lookup ext (CMap m) a b c = Inr None"
  by (simp add: get_lookup_def)

lemma ebind_Inr_iff: "ebind x f = Inr r \<longleftrightarrow> (\<exists>v. x = Inr v \<and> f v = Inr r)"
  by (cases x) auto

lemma RuleHelpers_init_senders:
  assumes "RuleHelpers_init ext options = Inr self"
  shows "\<exists>rules. py_get options ''rules'' (CMap []) = Inr rules \<and>
           get_lookup ext rules ''lookup_senders'' ''only_senders'' ''regex_senders''
             = Inr (lookup_senders self)"
  using assms unfolding RuleHelpers_init_def ebind_Inr_iff
  by auto


lemma init_allow_alice:
  "RuleHelpers_init dict_externals (edge_rules [(''only_senders'', CList [CStr ''alice@example.com'']),
      (''lookup_credentials'', CMap [(''bob'', CStr ''secret'')]), (''reject_spam'', CNone)]) = Inr allow_alice"
  by (simp add: RuleHelpers_init_def edge_rules_def dict_externals_def get_lookup_def
      fill_hostname_template_def get_scanner_def fromkeys_def allow_alice_def)

lemma init_creds_only:
  "RuleHelpers_init dict_externals (edge_rules [
      (''lookup_credentials'', CMap [(''bob'', CStr ''secret'')]), (''reject_spam'', CNone)]) = Inr creds_only"
  by (simp add: RuleHelpers_init_def edge_rules_def dict_externals_def get_lookup_def
      fill_hostname_template_def get_scanner_def fromkeys_def allow_alice_def creds_only_def)

text \<open>
  Claim C2. For every rule set, session and sender: when a sender lookup is configured,
  \<open>is_sender_ok\<close> is true exactly when the sender is present in that lookup, whatever
  the authentication state; otherwise, when a credential lookup is configured, it is
  true exactly when the session is authenticated; otherwise it is true. The last part
  ties this to the configuration: a rule set built from rules that hold none of
  \<open>lookup_senders\<close>, \<open>only_senders\<close>, \<open>regex_senders\<close> accepts every sender unless a
  credential lookup is configured and the session is unauthenticated.
\<close>

theorem is_sender_ok_precedence:
  "(lookup_senders self = Some ls \<longrightarrow>
      (is_sender_ok ext self vs sender \<longleftrightarrow> lookup_address ext ls sender [] \<noteq> None)) \<and>
   (lookup_senders self = None \<and> lookup_creds self = Some lc \<longrightarrow>
      (is_sender_ok ext self vs sender \<longleftrightarrow> auth (session vs))) \<and>
   (lookup_senders self = None \<and> lookup_creds self = None \<longrightarrow>
      is_sender_ok ext self vs sender) \<and>
   (py_get options ''rules'' (CMap []) = Inr (CMap m) \<and>
    map_of m ''lookup_senders'' = None \<and> map_of m ''only_senders'' = None \<and>
    map_of m ''regex_senders'' = None \<and> RuleHelpers_init ext options = Inr self \<longrightarrow>
      (is_sender_ok ext self vs sender \<longleftrightarrow> \<not> (lookup_creds self \<noteq> None \<and> \<not> auth (session vs))))"
proof -
  have cfg: "lookup_senders self = None"
    if "py_get options ''rules'' (CMap []) = Inr (CMap m)"
      "map_of m ''lookup_senders'' = None" "map_of m ''only_senders'' = None"
      "map_of m ''regex_senders'' = None" "RuleHelpers_init ext options = Inr self"
    using RuleHelpers_init_senders [OF that(5)] that(1-4)
    by (auto simp: get_lookup_absent)
  show ?thesis
    using cfg by (auto simp: is_sender_ok_def)
qed

text \<open>
  The instance: an allow-list holding alice accepts her without authentication and
  rejects mallory with it; with credentials only, the authentication state decides.
\<close>

theorem is_sender_ok_precedence_witness:
  "is_sender_ok dict_externals allow_alice unauthenticated ''alice@example.com'' \<and>
   \<not> is_sender_ok dict_externals allow_alice authenticated ''mallory@example.com'' \<and>
   is_sender_ok dict_externals creds_only authenticated ''mallory@example.com'' \<and>
   \<not> is_sender_ok dict_externals creds_only unauthenticated ''alice@example.com'' \<and>
   is_sender_ok dict_externals no_rules unauthenticated ''mallory@example.com''"
proof -
  let ?m = "[(''banner'', CNone), (''dnsbl'', CNone), (''passlib_config'', CNone),
    (''reject_spf'', CNone), (''lookup_credentials'', CMap [(''bob'', CStr ''secret'')]),
    (''reject_spam'', CNone)]"
  let ?o = "edge_rules [(''lookup_credentials'', CMap [(''bob'', CStr ''secret'')]),
    (''reject_spam'', CNone)]"
  let ?ls = "DictLookup [(CStr ''alice@example.com'', [])] ''{address}''"
  let ?lc = "DictLookup [(CStr ''bob'', [(''password'', ''hash'')])] ''{address}''"
  have a: "lookup_senders allow_alice = Some ?ls"
    by (simp add: allow_alice_def)
  have b: "py_get ?o ''rules'' (CMap []) = Inr (CMap ?m)"
    by (simp add: edge_rules_def)
  have c: "lookup_senders no_rules = None" "lookup_creds no_rules = None"
    by (simp_all add: no_rules_def creds_only_def)
  have d: "lookup_creds creds_only = Some ?lc"
    by (simp add: creds_only_def allow_alice_def)
  have l: "lookup_address dict_externals ?ls ''alice@example.com'' [] \<noteq> None"
    "lookup_address dict_externals ?ls ''mallory@example.com'' [] = None"
    by (simp_all add: dict_externals_def)
  have v: "auth (session authenticated)" "\<not> auth (session unauthenticated)"
    by (simp_all add: authenticated_def unauthenticated_def)
  have "is_sender_ok dict_externals allow_alice unauthenticated ''alice@example.com''"
    using is_sender_ok_precedence [where self = allow_alice and ls = ?ls
        and ext = dict_externals and vs = unauthenticated and sender = "''alice@example.com''"]
      a l by simp
  moreover have "\<not> is_sender_ok dict_externals allow_alice authenticated ''mallory@example.com''"
    using is_sender_ok_precedence [where self = allow_alice and ls = ?ls
        and ext = dict_externals and vs = authenticated and sender = "''mallory@example.com''"]
      a l by simp
  moreover have "is_sender_ok dict_externals creds_only authenticated ''mallory@example.com''"
    using is_sender_ok_precedence [where self = creds_only and options = ?o and m = ?m
        and ext = dict_externals and vs = authenticated and sender = "''mallory@example.com''"]
      b d v init_creds_only by simp
  moreover have "\<not> is_sender_ok dict_externals creds_only unauthenticated ''alice@example.com''"
    using is_sender_ok_precedence [where self = creds_only and options = ?o and m = ?m
        and ext = dict_externals and vs = unauthenticated and sender = "''alice@example.com''"]
      b d v init_creds_only by simp
  moreover have "is_sender_ok dict_externals no_rules unauthenticated ''mallory@example.com''"
    using is_sender_ok_precedence [where self = no_rules
        and ext = dict_externals and vs = unauthenticated and sender = "''mallory@example.com''"]
      c by simp
  ultimately show ?thesis by simp
qed

lemma RuleHelpers_init_fields:
  assumes "RuleHelpers_init ext options = Inr self"
  shows "\<exists>rules lc rs. py_get options ''rules'' (CMap []) = Inr rules \<and>
           get_lookup ext rules ''lookup_senders'' ''only_senders'' ''regex_senders''
             = Inr (lookup_senders self) \<and>
           get_lookup ext rules ''lookup_recipients'' ''only_recipients'' ''regex_recipients''
             = Inr (lookup_rcpts self) \<and>
           py_getattr rules ''lookup_credentials'' = Inr lc \<and>
           load_lookup ext lc = Inr (lookup_creds self) \<and>
           py_getattr rules ''reject_spam'' = Inr rs \<and>
           get_scanner rs = Inr (scanner self)"
  using assms unfolding RuleHelpers_init_def ebind_Inr_iff
  by auto

text \<open>
  Claim C4. In a rules fragment holding more than one of the three lookup keys, the
  lookup is built from the first present key only, in the order explicit lookup
  configuration, flat allow-list, regex allow-list: the result is given by that key's
  value alone, and two fragments that agree on it give the same lookup whatever the
  later keys hold. With none of the keys the result is \<open>None\<close>.
\<close>

theorem get_lookup_first_present:
  "(map_of m ls = Some v \<longrightarrow>
      get_lookup ext (CMap m) ls li rs = load_lookup ext v) \<and>
   (map_of m ls = None \<and> map_of m li = Some v \<longrightarrow>
      get_lookup ext (CMap m) ls li rs =
        ebind (py_iter v) (\<lambda>items.
          Inr (Some (DictLookup (fromkeys items []) ''{address}'')))) \<and>
   (map_of m ls = None \<and> map_of m li = None \<and> map_of m rs = Some v \<longrightarrow>
      get_lookup ext (CMap m) ls li rs =
        ebind (py_iter v) (\<lambda>items. ebind (add_regexes ext items []) (\<lambda>regexes.
          Inr (Some (RegexLookup ''{address}'' regexes))))) \<and>
   (map_of m ls = None \<and> map_of m li = None \<and> map_of m rs = None \<longrightarrow>
      get_lookup ext (CMap m) ls li rs = Inr None) \<and>
   (map_of m ls = Some v \<and> map_of m' ls = Some v \<longrightarrow>
      get_lookup ext (CMap m) ls li rs = get_lookup ext (CMap m') ls li rs) \<and>
   (map_of m ls = None \<and> map_of m' ls = None \<and>
    map_of m li = Some v \<and> map_of m' li = Some v \<longrightarrow>
      get_lookup ext (CMap m) ls li rs = get_lookup ext (CMap m') ls li rs)"
  by (simp add: get_lookup_def)

text \<open>
  The instance: with all three sender keys the explicit lookup is loaded; without it the
  flat list wins over the regex list; the regex list is used when it stands alone; with
  no key there is no lookup.
\<close>

theorem get_lookup_first_present_witness:
  "get_lookup dict_externals (CMap sender_rules) ''lookup_senders'' ''only_senders''
     ''regex_senders'' = load_lookup dict_externals (CMap [(''carol@example.com'', CStr ''secret'')]) \<and>
   get_lookup dict_externals (CMap (take 2 sender_rules)) ''lookup_senders'' ''only_senders''
     ''regex_senders'' = Inr (Some (DictLookup [(CStr ''alice@example.com'', [])] ''{address}'')) \<and>
   get_lookup dict_externals (CMap (take 1 sender_rules)) ''lookup_senders'' ''only_senders''
     ''regex_senders'' = Inr (Some (RegexLookup ''{address}'' [(''^sales@'', [])])) \<and>
   get_lookup dict_externals (CMap []) ''lookup_senders'' ''only_senders''
     ''regex_senders'' = Inr None"
proof -
  have "get_lookup dict_externals (CMap sender_rules) ''lookup_senders'' ''only_senders''
     ''regex_senders'' = load_lookup dict_externals (CMap [(''carol@example.com'', CStr ''secret'')])"
    using get_lookup_first_present [where m = sender_rules and ls = "''lookup_senders''"
        and v = "CMap [(''carol@example.com'', CStr ''secret'')]" and ext = dict_externals
        and li = "''only_senders''" and rs = "''regex_senders''"]
    by (simp add: sender_rules_def)
  moreover have "get_lookup dict_externals (CMap (take 2 sender_rules)) ''lookup_senders''
     ''only_senders'' ''regex_senders''
       = Inr (Some (DictLookup [(CStr ''alice@example.com'', [])] ''{address}''))"
    using get_lookup_first_present [where m = "take 2 sender_rules"
        and ls = "''lookup_senders''" and v = "CList [CStr ''alice@example.com'']"
        and ext = dict_externals and li = "''only_senders''" and rs = "''regex_senders''"]
    by (simp add: sender_rules_def fromkeys_def)
  moreover have "get_lookup dict_externals (CMap (take 1 sender_rules)) ''lookup_senders''
     ''only_senders'' ''regex_senders''
       = Inr (Some (RegexLookup ''{address}'' [(''^sales@'', [])]))"
    using get_lookup_first_present [where m = "take 1 sender_rules"
        and ls = "''lookup_senders''" and v = "CList [CStr ''^sales@'']"
        and ext = dict_externals and li = "''only_senders''" and rs = "''regex_senders''"]
    by (simp add: sender_rules_def dict_externals_def)
  moreover have "get_lookup dict_externals (CMap []) ''lookup_senders'' ''only_senders''
     ''regex_senders'' = Inr None"
    using get_lookup_first_present [where m = "[]" and ls = "''lookup_senders''"
        and ext = dict_externals and li = "''only_senders''" and rs = "''regex_senders''"]
    by simp
  ultimately show ?thesis by simp
qed

text \<open>
  Claim C5. \<open>check_credentials\<close> is false when no credential lookup is configured, when
  the lookup has no result for the identity, and when the result holds no password;
  otherwise it is exactly the result of verifying the credentials against the stored
  password under the configured hash.
\<close>

theorem check_credentials_fails_closed:
  "(lookup_creds self = None \<longrightarrow> \<not> check_credentials ext self creds) \<and>
   (lookup_creds self = Some lc \<and>
    lookup_address ext lc (authcid creds) [(''authzid'', authzid creds)] = None \<longrightarrow>
      \<not> check_credentials ext self creds) \<and>
   (lookup_creds self = Some lc \<and>
    lookup_address ext lc (authcid creds) [(''authzid'', authzid creds)] = Some ret \<and>
    map_of ret ''password'' = None \<longrightarrow>
      \<not> check_credentials ext self creds) \<and>
   (lookup_creds self = Some lc \<and>
    lookup_address ext lc (authcid creds) [(''authzid'', authzid creds)] = Some ret \<and>
    map_of ret ''password'' = Some pw \<longrightarrow>
      (check_credentials ext self creds \<longleftrightarrow>
         verify creds (HashedIdentity (authcid creds) pw (password_hash self))))"
  by (auto simp: check_credentials_def)

text \<open>
  The instance: bob with the right secret is accepted; a failed verification, an unknown
  identity, a result without a password and a rule set without credential lookup are
  all rejected.
\<close>

theorem check_credentials_fails_closed_witness:
  "check_credentials dict_externals allow_alice bob_creds \<and>
   \<not> check_credentials dict_externals allow_alice wrong_creds \<and>
   \<not> check_credentials dict_externals allow_alice eve_creds \<and>
   \<not> check_credentials dict_externals quota_only bob_creds \<and>
   \<not> check_credentials dict_externals no_rules bob_creds"
proof -
  let ?lc = "DictLookup [(CStr ''bob'', [(''password'', ''hash'')])] ''{address}''"
  let ?lq = "DictLookup [(CStr ''bob'', [(''quota'', ''1'')])] ''{address}''"
  have c: "lookup_creds allow_alice = Some ?lc" "lookup_creds quota_only = Some ?lq"
    "lookup_creds no_rules = None"
    by (simp_all add: allow_alice_def quota_only_def no_rules_def creds_only_def)
  have h: "password_hash allow_alice = PasswordHash CNone"
    by (simp add: allow_alice_def)
  have b: "lookup_address dict_externals ?lc (authcid bob_creds)
             [(''authzid'', authzid bob_creds)] = Some [(''password'', ''hash'')]"
    "lookup_address dict_externals ?lc (authcid wrong_creds)
             [(''authzid'', authzid wrong_creds)] = Some [(''password'', ''hash'')]"
    "lookup_address dict_externals ?lc (authcid eve_creds)
             [(''authzid'', authzid eve_creds)] = None"
    "lookup_address dict_externals ?lq (authcid bob_creds)
             [(''authzid'', authzid bob_creds)] = Some [(''quota'', ''1'')]"
    by (simp_all add: dict_externals_def bob_creds_def wrong_creds_def eve_creds_def)
  have v: "verify bob_creds (HashedIdentity (authcid bob_creds) ''hash'' (PasswordHash CNone))"
    "\<not> verify wrong_creds (HashedIdentity (authcid wrong_creds) ''hash'' (PasswordHash CNone))"
    by (simp_all add: bob_creds_def wrong_creds_def)
  have "check_credentials dict_externals allow_alice bob_creds"
    using check_credentials_fails_closed [where self = allow_alice and ext = dict_externals
        and creds = bob_creds and lc = ?lc and ret = "[(''password'', ''hash'')]"
        and pw = "''hash''"] c b h v
    by simp
  moreover have "\<not> check_credentials dict_externals allow_alice wrong_creds"
    using check_credentials_fails_closed [where self = allow_alice and ext = dict_externals
        and creds = wrong_creds and lc = ?lc and ret = "[(''password'', ''hash'')]"
        and pw = "''hash''"] c b h v
    by simp
  moreover have "\<not> check_credentials dict_externals allow_alice eve_creds"
    using check_credentials_fails_closed [where self = allow_alice and ext = dict_externals
        and creds = eve_creds and lc = ?lc] c b
    by simp
  moreover have "\<not> check_credentials dict_externals quota_only bob_creds"
    using check_credentials_fails_closed [where self = quota_only and ext = dict_externals
        and creds = bob_creds and lc = ?lq and ret = "[(''quota'', ''1'')]"] c b
    by simp
  moreover have "\<not> check_credentials dict_externals no_rules bob_creds"
    using check_credentials_fails_closed [where self = no_rules and ext = dict_externals
        and creds = bob_creds] c
    by simp
  ultimately show ?thesis by simp
qed

lemma get_scanner_other_type:
  "map_of m ''type'' = Some t \<Longrightarrow> t \<noteq> CStr ''spamassassin'' \<Longrightarrow>
   get_scanner (CMap m) = Inr None"
  by (simp add: get_scanner_def)

text \<open>
  Claim C10. When \<open>reject_spam\<close> is configured with a type other than spamassassin,
  \<open>_get_scanner\<close> returns \<open>None\<close> without raising, and a rule set without scanner rejects
  no message; so a rule set built from such a configuration has no scanner and
  \<open>reject_spam\<close> is false for every message.
\<close>

theorem unknown_scanner_type_disables_reject_spam:
  "(map_of m ''type'' = Some t \<and> t \<noteq> CStr ''spamassassin'' \<longrightarrow>
      get_scanner (CMap m) = Inr None) \<and>
   (scanner self = None \<longrightarrow> \<not> reject_spam ext self data) \<and>
   (py_get options ''rules'' (CMap []) = Inr rules \<and>
    py_getattr rules ''reject_spam'' = Inr (CMap m) \<and>
    map_of m ''type'' = Some t \<and> t \<noteq> CStr ''spamassassin'' \<and>
    RuleHelpers_init ext options = Inr self' \<longrightarrow>
      scanner self' = None \<and> \<not> reject_spam ext self' data)"
proof -
  have "scanner self' = None"
    if "py_get options ''rules'' (CMap []) = Inr rules"
      "py_getattr rules ''reject_spam'' = Inr (CMap m)"
      "map_of m ''type'' = Some t" "t \<noteq> CStr ''spamassassin''"
      "RuleHelpers_init ext options = Inr self'"
    using RuleHelpers_init_fields [OF that(5)] that(1-4)
    by (auto simp: get_scanner_other_type)
  then show ?thesis
    by (auto simp: reject_spam_def get_scanner_other_type)
qed

lemma init_clamav:
  "RuleHelpers_init dict_externals (edge_rules [(''lookup_credentials'', CNone),
      (''reject_spam'', CMap [(''type'', CStr ''clamav'')])]) = Inr no_rules"
  by (simp add: RuleHelpers_init_def edge_rules_def dict_externals_def get_lookup_def
      fill_hostname_template_def get_scanner_def allow_alice_def creds_only_def no_rules_def)

text \<open>
  The instance: a configuration asking for a scanner of type clamav builds a rule set
  without scanner, which lets a message through that the scanner would have flagged.
\<close>

theorem unknown_scanner_type_disables_reject_spam_witness:
  "get_scanner (CMap [(''type'', CStr ''clamav'')]) = Inr None \<and>
   scanner no_rules = None \<and>
   \<not> reject_spam dict_externals no_rules ''cheap viagra''"
proof -
  let ?o = "edge_rules [(''lookup_credentials'', CNone),
      (''reject_spam'', CMap [(''type'', CStr ''clamav'')])]"
  let ?r = "CMap [(''banner'', CNone), (''dnsbl'', CNone), (''passlib_config'', CNone),
      (''reject_spf'', CNone), (''lookup_credentials'', CNone),
      (''reject_spam'', CMap [(''type'', CStr ''clamav'')])]"
  have r: "py_get ?o ''rules'' (CMap []) = Inr ?r"
    by (simp add: edge_rules_def)
  have s: "py_getattr ?r ''reject_spam'' = Inr (CMap [(''type'', CStr ''clamav'')])"
    by simp
  show ?thesis
    using unknown_scanner_type_disables_reject_spam [where m = "[(''type'', CStr ''clamav'')]"
        and t = "CStr ''clamav''" and options = ?o and rules = ?r and ext = dict_externals
        and self' = no_rules and data = "''cheap viagra''"] r s init_clamav
    by simp
qed

lemma add_queue_policies_loop_append:
  "add_queue_policies_loop ext queue (xs @ ys) =
     (case add_queue_policies_loop ext queue xs of
        (None, queue') \<Rightarrow> add_queue_policies_loop ext queue' ys
      | (Some e, queue') \<Rightarrow> (Some e, queue'))"
  by (induction xs arbitrary: queue) (auto split: sum.splits option.splits)

lemma policy_of_incomplete_lookup:
  assumes "map_of pm ''type'' = Some (CStr ''lookup'')"
    and "load_lookup ext (case map_of pm ''lookup'' of None \<Rightarrow> CMap [] | Some v \<Rightarrow> v) = Inr None"
  shows "policy_of ext (CMap pm) = Inl (ConfigValidationError ''Incomplete lookup policy section'')"
  using assms by (simp add: policy_of_def)

text \<open>
  Claim C7. When the entries before it have been processed without error, a policy entry
  of type lookup whose lookup configuration loads to no lookup table makes
  \<open>add_queue_policies\<close> raise the configuration error at that entry: the queue holds the
  policies of the earlier entries and none of the later ones.
\<close>

theorem incomplete_lookup_policy_fails_fast:
  assumes "py_iter policy_options = Inr (before @ CMap pm # rest)"
    and "add_queue_policies_loop ext queue before = (None, queue')"
    and "map_of pm ''type'' = Some (CStr ''lookup'')"
    and "load_lookup ext (case map_of pm ''lookup'' of None \<Rightarrow> CMap [] | Some v \<Rightarrow> v) = Inr None"
  shows "add_queue_policies ext queue policy_options =
           (Some (ConfigValidationError ''Incomplete lookup policy section''), queue')"
  using assms
  by (simp add: add_queue_policies_def add_queue_policies_loop_append
      policy_of_incomplete_lookup)

text \<open>
  The instance: the date header of the first entry is on the queue, the received header
  of the third is not.
\<close>

theorem incomplete_lookup_policy_fails_fast_witness:
  "add_queue_policies dict_externals [] policy_entries =
     (Some (ConfigValidationError ''Incomplete lookup policy section''), [AddDateHeader])"
proof -
  have i: "py_iter policy_entries =
      Inr ([CMap [(''type'', CStr ''add_date_header'')]] @
        CMap [(''type'', CStr ''lookup''), (''lookup'', CMap [])] #
        [CMap [(''type'', CStr ''add_received_header'')]])"
    by (simp add: policy_entries_def)
  have b: "add_queue_policies_loop dict_externals []
      [CMap [(''type'', CStr ''add_date_header'')]] = (None, [AddDateHeader])"
    by (simp add: policy_of_def)
  have l: "load_lookup dict_externals
      (case map_of [(''type'', CStr ''lookup''), (''lookup'', CMap [])] ''lookup'' of
         None \<Rightarrow> CMap [] | Some v \<Rightarrow> v) = Inr None"
    by (simp add: dict_externals_def)
  show ?thesis
    using incomplete_lookup_policy_fails_fast [OF i b _ l] by simp
qed

lemma policy_of_unknown_type:
  assumes "map_of pm ''type'' = Some t"
    and "t \<notin> CStr ` {''add_date_header'', ''add_messageid_header'', ''add_received_header'',
      ''recipient_split'', ''recipient_domain_split'', ''lookup'', ''forward'',
      ''spamassassin'', ''add_dkim_header''}"
  shows "policy_of ext (CMap pm) = Inr None"
  using assms by (simp add: policy_of_def)


text \<open>
  Claim C6 asks for a configuration error on an entry of unknown type. The loop body has
  no branch for it: the entry with the misspelt type is passed over without error and
  the next entry is processed.
\<close>

theorem unknown_policy_type_is_skipped:
  "add_queue_policies dict_externals []
     (CList [CMap [(''type'', CStr ''add_date_headr'')],
             CMap [(''type'', CStr ''add_received_header'')]])
   = (None, [AddReceivedHeader])"
  by (simp add: add_queue_policies_def policy_of_def)

section \<open>Properties of the backoff function\<close>

lemma parse_double: "parse_lambda ''lambda x: x*2'' = Some (Mul Var (Num 2))"
  by code_simp

lemma parse_default: "parse_lambda ''lambda x: 300'' = Some (Num 300)"
  by code_simp

lemma arith_eval_double: "arith_eval ''lambda x: x*2'' = Inr (\<lambda>x. Inr (x * 2))"
  by (simp add: arith_eval_def parse_double)

lemma arith_eval_default: "arith_eval ''lambda x: 300'' = Inr (\<lambda>x. Inr 300)"
  by (simp add: arith_eval_def parse_default)

lemma build_backoff_function_no_retry:
  "\<not> truthy retry \<Longrightarrow> build_backoff_function py_eval retry = Inr no_retries"
  by (simp add: build_backoff_function_def)

lemma build_backoff_function_retry:
  assumes "m \<noteq> []"
    and "py_int (case map_of m ''maximum'' of None \<Rightarrow> CInt 0 | Some v \<Rightarrow> v) = Inr maximum"
    and "(case map_of m ''delay'' of None \<Rightarrow> CStr ''300'' | Some v \<Rightarrow> v) = CStr delay"
    and "py_eval (''lambda x: '' @ delay) = Inr delay_func"
  shows "build_backoff_function py_eval (CMap m) = Inr (backoff maximum delay_func)"
  using assms by (simp add: build_backoff_function_def)

lemma backoff_value:
  "backoff maximum delay_func envelope attempts =
     (if attempts > maximum then Inr None else map_sum id Some (delay_func attempts))"
  by (cases "delay_func attempts") (simp_all add: backoff_def)

text \<open>
  Claim C3. Without retry configuration \<open>build_backoff_function\<close> returns a function that
  signals stop for every number of attempts. With a retry configuration whose maximum
  (default 0) converts to an integer and whose delay (default 300) is the text of an
  expression that compiles, it returns a function that signals stop when the attempts
  exceed the maximum and otherwise gives the delay expression evaluated at the attempts.
  For maximum 3 and delay \<open>x*2\<close>, compiled to doubling, the function gives 4 at 2 attempts
  and stop at 4.
\<close>

theorem build_backoff_function_spec:
  fixes py_eval :: "string \<Rightarrow> error + (int \<Rightarrow> error + 'n)"
    and int_eval :: "string \<Rightarrow> error + (int \<Rightarrow> error + int)"
  shows
  "(\<not> truthy retry \<longrightarrow>
      (\<exists>g. build_backoff_function py_eval retry = Inr g \<and>
         (\<forall>(envelope :: 'e) attempts. g envelope attempts = Inr None))) \<and>
   (m \<noteq> [] \<and>
    py_int (case map_of m ''maximum'' of None \<Rightarrow> CInt 0 | Some v \<Rightarrow> v) = Inr maximum \<and>
    (case map_of m ''delay'' of None \<Rightarrow> CStr ''300'' | Some v \<Rightarrow> v) = CStr delay \<and>
    py_eval (''lambda x: '' @ delay) = Inr delay_func \<longrightarrow>
      (\<exists>g. build_backoff_function py_eval (CMap m) = Inr g \<and>
         (\<forall>(envelope :: 'e) attempts. g envelope attempts =
            (if attempts > maximum then Inr None
             else map_sum id Some (delay_func attempts))))) \<and>
   (int_eval ''lambda x: x*2'' = Inr (\<lambda>x. Inr (x * 2)) \<longrightarrow>
      (\<exists>g. build_backoff_function int_eval
              (CMap [(''maximum'', CInt 3), (''delay'', CStr ''x*2'')]) = Inr g \<and>
         (\<forall>(envelope :: 'e). g envelope 2 = Inr (Some 4) \<and> g envelope 4 = Inr None)))"
proof (intro conjI impI)
  assume "\<not> truthy retry"
  then show "\<exists>g. build_backoff_function py_eval retry = Inr g \<and>
         (\<forall>(envelope :: 'e) attempts. g envelope attempts = Inr None)"
    by (simp add: build_backoff_function_no_retry no_retries_def)
next
  assume a: "m \<noteq> [] \<and>
    py_int (case map_of m ''maximum'' of None \<Rightarrow> CInt 0 | Some v \<Rightarrow> v) = Inr maximum \<and>
    (case map_of m ''delay'' of None \<Rightarrow> CStr ''300'' | Some v \<Rightarrow> v) = CStr delay \<and>
    py_eval (''lambda x: '' @ delay) = Inr delay_func"
  then have "build_backoff_function py_eval (CMap m) = Inr (backoff maximum delay_func)"
    by (simp add: build_backoff_function_retry)
  then show "\<exists>g. build_backoff_function py_eval (CMap m) = Inr g \<and>
         (\<forall>(envelope :: 'e) attempts. g envelope attempts =
            (if attempts > maximum then Inr None
             else map_sum id Some (delay_func attempts)))"
    using backoff_value [of maximum delay_func] by blast
next
  assume "int_eval ''lambda x: x*2'' = Inr (\<lambda>x. Inr (x * 2))"
  then have "build_backoff_function int_eval
      (CMap [(''maximum'', CInt 3), (''delay'', CStr ''x*2'')]) = Inr (backoff 3 (\<lambda>x. Inr (x * 2)))"
    by (simp add: build_backoff_function_retry)
  then show "\<exists>g. build_backoff_function int_eval
              (CMap [(''maximum'', CInt 3), (''delay'', CStr ''x*2'')]) = Inr g \<and>
         (\<forall>(envelope :: 'e). g envelope 2 = Inr (Some 4) \<and> g envelope 4 = Inr None)"
    by (intro exI [of _ "backoff 3 (\<lambda>x. Inr (x * 2))"]) (simp add: backoff_value)
qed

text \<open>
  The instance, with the evaluator for integer expressions: no configuration, a maximum
  of 5 with the default delay, and the maximum 3 with delay \<open>x*2\<close>.
\<close>

theorem build_backoff_function_spec_witness:
  "(\<exists>g. build_backoff_function arith_eval CNone = Inr g \<and>
      (\<forall>(envelope :: unit) attempts. g envelope attempts = Inr None)) \<and>
   (\<exists>g. build_backoff_function arith_eval (CMap [(''maximum'', CStr ''5'')]) = Inr g \<and>
      (\<forall>(envelope :: unit) attempts. g envelope attempts =
         (if attempts > 5 then Inr None else map_sum id Some (Inr 300)))) \<and>
   (\<exists>g. build_backoff_function arith_eval
           (CMap [(''maximum'', CInt 3), (''delay'', CStr ''x*2'')]) = Inr g \<and>
      (\<forall>(envelope :: unit). g envelope 2 = Inr (Some 4) \<and> g envelope 4 = Inr None))"
proof -
  have five: "py_int (case map_of [(''maximum'', CStr ''5'')] ''maximum'' of
                 None \<Rightarrow> CInt 0 | Some v \<Rightarrow> v) = Inr 5"
    by (simp add: int_of_string_def strip_def is_space_def unsigned_val_def digit_of_def)
  have dflt: "(case map_of [(''maximum'', CStr ''5'')] ''delay'' of
                 None \<Rightarrow> CStr ''300'' | Some v \<Rightarrow> v) = CStr ''300''"
    by simp
  have src: "arith_eval (''lambda x: '' @ ''300'') = Inr (\<lambda>x. Inr 300)"
    using arith_eval_default by simp
  have ne: "[(''maximum'', CStr ''5'')] \<noteq> []" "\<not> truthy CNone"
    by simp_all
  note inst = build_backoff_function_spec [where py_eval = arith_eval
      and int_eval = arith_eval and retry = CNone and m = "[(''maximum'', CStr ''5'')]"
      and maximum = 5 and delay = "''300''" and delay_func = "\<lambda>x. Inr 300",
      where ?'e = unit]
  from inst ne(2) have one: "\<exists>g. build_backoff_function arith_eval CNone = Inr g \<and>
      (\<forall>(envelope :: unit) attempts. g envelope attempts = Inr None)"
    by blast
  from inst ne(1) five dflt src
  have two: "\<exists>g. build_backoff_function arith_eval (CMap [(''maximum'', CStr ''5'')]) = Inr g \<and>
      (\<forall>(envelope :: unit) attempts. g envelope attempts =
         (if attempts > 5 then Inr None else map_sum id Some (Inr 300)))"
    by blast
  from inst arith_eval_double
  have three: "\<exists>g. build_backoff_function arith_eval
           (CMap [(''maximum'', CInt 3), (''delay'', CStr ''x*2'')]) = Inr g \<and>
      (\<forall>(envelope :: unit). g envelope 2 = Inr (Some 4) \<and> g envelope 4 = Inr None)"
    by blast
  from one two three show ?thesis by blast
qed

section \<open>Properties of the registries\<close>

lemma start_relay_frame:
  assumes "start_relay name options s = (r, s1)"
  shows "queues s1 = queues s" and "edges s1 = edges s" and "cfg s1 = cfg s"
    and "priv_celery s1 = priv_celery s" and "started s1 = started s"
  using assms
  by (auto simp: start_relay_def alloc_def split: option.splits sum.splits)

lemma start_relay_mono:
  assumes "start_relay name options s = (r, s1)" and "relays s n = Some x"
  shows "relays s1 n = Some x"
  using assms
  by (auto simp: start_relay_def alloc_def split: option.splits sum.splits)

lemma new_relay_of_is_relay: "new_relay_of options = Inr ob \<Longrightarrow> is_relay ob"
  by (auto simp: new_relay_of_def ebind_Inr_iff split: if_splits)

lemma start_relay_inv:
  assumes "start_relay name options s = (r, s1)" and "relay_inv s"
  shows "relay_inv s1"
proof (cases "relays s name")
  case (Some x)
  then show ?thesis using assms by (simp add: start_relay_def)
next
  case None
  show ?thesis
  proof (cases "ebind (section_options ''relay'' name options s) new_relay_of")
    case (Inl e)
    then show ?thesis using assms None by (simp add: start_relay_def)
  next
    case (Inr ob)
    then have "is_relay ob"
      by (auto simp: ebind_Inr_iff dest: new_relay_of_is_relay)
    moreover have "name \<notin> set (relay_built s)"
      using assms(2) None by (auto simp: relay_inv_def list_all_iff)
    ultimately show ?thesis
      using assms None Inr
      by (auto simp: start_relay_def alloc_def relay_inv_def list_all_iff)
  qed
qed

lemma start_relay_named_frame:
  assumes "start_relay_named v s = (r, s1)"
  shows "queues s1 = queues s" and "edges s1 = edges s" and "cfg s1 = cfg s"
    and "priv_celery s1 = priv_celery s" and "started s1 = started s"
  using assms start_relay_frame
  by (auto simp: start_relay_named_def split: cfgval.splits)

lemma start_relay_named_mono:
  assumes "start_relay_named v s = (r, s1)" and "relays s n = Some x"
  shows "relays s1 n = Some x"
  using assms start_relay_mono
  by (auto simp: start_relay_named_def split: cfgval.splits)

lemma start_relay_named_inv:
  assumes "start_relay_named v s = (r, s1)" and "relay_inv s"
  shows "relay_inv s1"
  using assms start_relay_inv
  by (auto simp: start_relay_named_def split: cfgval.splits)

lemma celery_frame:
  assumes "celery s = (a, s1)"
  shows "queues s1 = queues s" and "edges s1 = edges s" and "cfg s1 = cfg s"
    and "relays s1 = relays s" and "relay_built s1 = relay_built s"
    and "started s1 = started s"
  using assms
  by (auto simp: celery_def alloc_def split: option.splits)

lemma celery_heap:
  "celery s = (a, s1) \<Longrightarrow> filter is_relay (heap s1) = filter is_relay (heap s)"
  by (auto simp: celery_def alloc_def split: option.splits)

lemma celery_inv: "celery s = (a, s1) \<Longrightarrow> relay_inv s \<Longrightarrow> relay_inv s1"
  by (simp add: relay_inv_def celery_frame celery_heap)

text \<open>The outcome of start_queue, case by case.\<close>

lemma start_queue_cases:
  assumes "start_queue name options s = (r, s')"
  obtains (memo) q where "queues s name = Some q" "r = Inr q" "s' = s"
  | (error) e where "queues s name = None" "r = Inl e" "s' = s"
  | (default) "queues s name = None" "r = Inr None"
      "s' = s \<lparr> queues := (queues s)(name \<mapsto> None) \<rparr>"
  | (relay_error) v e where "queues s name = None" "r = Inl e"
      "start_relay_named v s = (Inl e, s')"
  | (celery) v relay s1 app s2 where "queues s name = None"
      "start_relay_named v s = (Inr relay, s1)" "celery s1 = (app, s2)"
      "r = Inr (Some (length (heap s2)))"
      "s' = s2 \<lparr> heap := heap s2 @ [CeleryQueue app relay name],
                 queues := (queues s2)(name \<mapsto> Some (length (heap s2))) \<rparr>"
  using assms
  unfolding start_queue_def alloc_def
  by (auto split: option.splits sum.splits if_splits prod.splits bool.splits)


lemma start_queue_registers:
  assumes "start_queue name options s = (Inr q, s')"
  shows "queues s' name = Some q"
  using assms by (cases rule: start_queue_cases) auto

lemma start_queue_memo:
  "queues s name = Some q \<Longrightarrow> start_queue name options s = (Inr q, s)"
  by (simp add: start_queue_def)

lemma start_queue_frame:
  assumes "start_queue name options s = (r, s')"
  shows "edges s' = edges s" and "cfg s' = cfg s" and "started s' = started s"
  using assms
  by (cases rule: start_queue_cases;
      simp add: start_relay_named_frame celery_frame)+

lemma start_queue_mono:
  assumes "start_queue name options s = (r, s')"
  shows "queues s n = Some q \<Longrightarrow> queues s' n = Some q"
    and "relays s n = Some x \<Longrightarrow> relays s' n = Some x"
  using assms
  by (cases rule: start_queue_cases;
      auto simp: start_relay_named_frame celery_frame start_relay_named_mono)+

lemma start_queue_inv:
  assumes "start_queue name options s = (r, s')" and "relay_inv s"
  shows "relay_inv s'"
  using assms(1)
proof (cases rule: start_queue_cases)
  case (relay_error v e)
  then show ?thesis using assms(2) start_relay_named_inv by blast
next
  case (celery v relay s1 app s2)
  then have "relay_inv s2"
    using assms(2) start_relay_named_inv celery_inv by blast
  then show ?thesis
    using celery by (simp add: relay_inv_def)
qed (use assms(2) in \<open>simp_all add: relay_inv_def\<close>)


lemma start_queue_named_frame:
  assumes "start_queue_named v s = (r, s')"
  shows "edges s' = edges s" and "cfg s' = cfg s" and "started s' = started s"
  using assms start_queue_frame
  by (auto simp: start_queue_named_def split: cfgval.splits)

lemma start_queue_named_mono:
  assumes "start_queue_named v s = (r, s')"
  shows "queues s n = Some q \<Longrightarrow> queues s' n = Some q"
    and "relays s n = Some x \<Longrightarrow> relays s' n = Some x"
  using assms start_queue_mono
  by (auto simp: start_queue_named_def split: cfgval.splits)

lemma start_queue_named_inv:
  assumes "start_queue_named v s = (r, s')" and "relay_inv s"
  shows "relay_inv s'"
  using assms start_queue_inv
  by (auto simp: start_queue_named_def split: cfgval.splits)

lemma start_edge_cases:
  assumes "start_edge name options s = (r, s')"
  obtains (memo) e where "edges s name = Some e" "r = Inr e" "s' = s"
  | (error) e where "edges s name = None" "r = Inl e" "s' = s"
  | (queue_error) v e where "edges s name = None" "r = Inl e"
      "start_queue_named v s = (Inl e, s')"
  | (smtp) v queue s1 ip port where "edges s name = None"
      "start_queue_named v s = (Inr queue, s1)"
      "r = Inr (length (heap s1))"
      "s' = s1 \<lparr> heap := heap s1 @ [SmtpEdge ip port queue],
                 started := started s1 @ [length (heap s1)],
                 edges := (edges s1)(name \<mapsto> length (heap s1)) \<rparr>"
  using assms
  unfolding start_edge_def alloc_def
  by (auto split: option.splits sum.splits if_splits prod.splits)

lemma start_edge_registers:
  assumes "start_edge name options s = (Inr e, s')"
  shows "edges s' name = Some e"
  using assms by (cases rule: start_edge_cases) auto

lemma start_edge_memo:
  "edges s name = Some e \<Longrightarrow> start_edge name options s = (Inr e, s)"
  by (simp add: start_edge_def)

lemma start_edge_mono:
  assumes "start_edge name options s = (r, s')"
  shows "queues s n = Some q \<Longrightarrow> queues s' n = Some q"
    and "relays s n = Some x \<Longrightarrow> relays s' n = Some x"
    and "edges s n = Some e \<Longrightarrow> edges s' n = Some e"
  using assms
  by (cases rule: start_edge_cases;
      auto simp: start_queue_named_frame start_queue_named_mono)+

lemma start_edge_inv:
  assumes "start_edge name options s = (r, s')" and "relay_inv s"
  shows "relay_inv s'"
  using assms(1)
proof (cases rule: start_edge_cases)
  case (queue_error v e)
  then show ?thesis using assms(2) start_queue_named_inv by blast
next
  case (smtp v queue s1 ip port)
  then have "relay_inv s1"
    using assms(2) start_queue_named_inv by blast
  then show ?thesis
    using smtp by (simp add: relay_inv_def)
qed (use assms(2) in \<open>simp_all add: relay_inv_def\<close>)

lemma do_call_mono:
  shows "queues s n = Some q \<Longrightarrow> queues (do_call s c) n = Some q"
    and "relays s n = Some x \<Longrightarrow> relays (do_call s c) n = Some x"
    and "edges s n = Some e \<Longrightarrow> edges (do_call s c) n = Some e"
proof -
  have p: "\<And>f. f = (fst f, snd f)" by simp
  show "queues s n = Some q \<Longrightarrow> queues (do_call s c) n = Some q"
    by (cases c)
      (auto simp: load_config_def start_relay_frame [OF p] start_queue_mono [OF p]
        start_edge_mono [OF p] celery_frame [OF p])
  show "relays s n = Some x \<Longrightarrow> relays (do_call s c) n = Some x"
    by (cases c)
      (auto simp: load_config_def start_relay_mono [OF p] start_queue_mono [OF p]
        start_edge_mono [OF p] celery_frame [OF p])
  show "edges s n = Some e \<Longrightarrow> edges (do_call s c) n = Some e"
    by (cases c)
      (auto simp: load_config_def start_relay_frame [OF p] start_queue_frame [OF p]
        start_edge_mono [OF p] celery_frame [OF p])
qed

lemma load_config_inv: "relay_inv s \<Longrightarrow> relay_inv (snd (load_config parsed s))"
  by (simp add: load_config_def relay_inv_def)

lemma do_call_inv: "relay_inv s \<Longrightarrow> relay_inv (do_call s c)"
proof -
  have p: "\<And>f. f = (fst f, snd f)" by simp
  assume "relay_inv s"
  then show ?thesis
    by (cases c)
      (auto intro: load_config_inv start_relay_inv [OF p] start_queue_inv [OF p]
        start_edge_inv [OF p] celery_inv [OF p])
qed

lemma run_mono:
  shows "queues s n = Some q \<Longrightarrow> queues (run calls s) n = Some q"
    and "relays s n = Some x \<Longrightarrow> relays (run calls s) n = Some x"
    and "edges s n = Some e \<Longrightarrow> edges (run calls s) n = Some e"
  unfolding run_def
  by (induction calls arbitrary: s) (simp_all add: do_call_mono)

lemma run_inv: "relay_inv s \<Longrightarrow> relay_inv (run calls s)"
  unfolding run_def
  by (induction calls arbitrary: s) (simp_all add: do_call_inv)

lemma relay_inv_init: "relay_inv SlimtaState_init"
  by (simp add: relay_inv_def SlimtaState_init_def)

lemma distinct_count_list_le: "distinct xs \<Longrightarrow> count_list xs x \<le> 1"
  by (induction xs) (auto simp: count_list_0_iff)

text \<open>
  Claim C1. When \<open>_start_queue\<close> has returned a queue for a name, a second call with the
  same name, whatever options it is given, returns the identical instance and leaves the
  state as it is; this holds right after the first call and after any further calls in
  between. In every state reached from the initial one by any sequence of calls, each
  relay name has had its relay constructed at most once, and the relay objects in the
  heap are as many as the names so counted.
\<close>

theorem start_queue_memoized:
  "(start_queue name options s = (Inr q, s') \<longrightarrow>
      start_queue name options' s' = (Inr q, s') \<and>
      start_queue name options' (run calls s') = (Inr q, run calls s')) \<and>
   count_list (relay_built (run calls' SlimtaState_init)) relay_name \<le> 1 \<and>
   length (filter is_relay (heap (run calls' SlimtaState_init)))
     = length (relay_built (run calls' SlimtaState_init))"
proof (intro conjI impI)
  assume a: "start_queue name options s = (Inr q, s')"
  then have q: "queues s' name = Some q"
    by (rule start_queue_registers)
  then show "start_queue name options' s' = (Inr q, s')"
    by (rule start_queue_memo)
  from q have "queues (run calls s') name = Some q"
    by (rule run_mono)
  then show "start_queue name options' (run calls s') = (Inr q, run calls s')"
    by (rule start_queue_memo)
next
  have inv: "relay_inv (run calls' SlimtaState_init)"
    using relay_inv_init by (rule run_inv)
  then show "length (filter is_relay (heap (run calls' SlimtaState_init)))
     = length (relay_built (run calls' SlimtaState_init))"
    by (simp add: relay_inv_def)
  from inv have "distinct (relay_built (run calls' SlimtaState_init))"
    by (simp add: relay_inv_def)
  then show "count_list (relay_built (run calls' SlimtaState_init)) relay_name \<le> 1"
    by (rule distinct_count_list_le)
qed

lemmas state_eval = start_queue_def start_edge_def section_options_def loaded_def
  demo_cfg_def SlimtaState_init_def start_relay_named_def start_queue_named_def
  start_relay_def new_relay_of_def celery_def alloc_def listener_address_def

lemma inbound_first: "fst (start_queue ''inbound'' CNone loaded) = Inr (Some 2)"
  by (simp add: state_eval)

text \<open>
  The instance: after the celery queue inbound has been built, asking for it again, even
  with options of an unknown type, returns the same reference and the same state, also
  after a second queue and an edge have been built; the relay outbound, referenced by
  two queues and requested once directly, is counted at most once.
\<close>

theorem start_queue_memoized_witness:
  "start_queue ''inbound'' (CMap [(''type'', CStr ''disk'')])
       (snd (start_queue ''inbound'' CNone loaded))
     = (Inr (Some 2), snd (start_queue ''inbound'' CNone loaded)) \<and>
   start_queue ''inbound'' CNone
       (run [StartQueue ''bulk'' CNone, StartEdge ''mail'' CNone]
          (snd (start_queue ''inbound'' CNone loaded)))
     = (Inr (Some 2), run [StartQueue ''bulk'' CNone, StartEdge ''mail'' CNone]
          (snd (start_queue ''inbound'' CNone loaded))) \<and>
   count_list (relay_built (run [LoadConfig demo_cfg, StartQueue ''inbound'' CNone,
       StartQueue ''bulk'' CNone, StartRelay ''outbound'' CNone] SlimtaState_init))
     ''outbound'' \<le> 1"
proof -
  have "start_queue ''inbound'' CNone loaded
          = (Inr (Some 2), snd (start_queue ''inbound'' CNone loaded))"
    using inbound_first by (simp add: prod_eq_iff)
  then show ?thesis
    using start_queue_memoized [where name = "''inbound''" and options = CNone
        and s = loaded and q = "Some 2" and s' = "snd (start_queue ''inbound'' CNone loaded)"
        and options' = "CMap [(''type'', CStr ''disk'')]" and calls = "[]"
        and calls' = "[LoadConfig demo_cfg, StartQueue ''inbound'' CNone,
          StartQueue ''bulk'' CNone, StartRelay ''outbound'' CNone]"
        and relay_name = "''outbound''"]
      start_queue_memoized [where name = "''inbound''" and options = CNone
        and s = loaded and q = "Some 2" and s' = "snd (start_queue ''inbound'' CNone loaded)"
        and options' = CNone and calls = "[StartQueue ''bulk'' CNone, StartEdge ''mail'' CNone]"]
    by blast
qed

text \<open>The relay of that run has indeed been constructed, once.\<close>

lemma shared_relay_example:
  "relay_built (run [LoadConfig demo_cfg, StartQueue ''inbound'' CNone,
       StartQueue ''bulk'' CNone, StartRelay ''outbound'' CNone] SlimtaState_init)
     = [''outbound'']"
  by (simp add: run_def load_config_def state_eval)

lemma contains_self: "contains t t"
  by (cases t) simp_all

lemma contains_append: "contains (a @ t) t"
  by (induction a) (simp_all add: contains_self)

text \<open>
  Claim C8 as stated asks for the section name in the message. The relay section pigeons
  of unknown type carrier raises an error whose message holds the type and not the name
  of the section.
\<close>

theorem start_relay_no_section_name_counterexample:
  "fst (start_relay ''pigeons'' CNone loaded)
     = Inl (ConfigError ''relay type does not exist: carrier'') \<and>
   \<not> contains ''relay type does not exist: carrier'' ''pigeons''"
  by (simp add: state_eval)

text \<open>
  Claim C8, amended. For a relay, queue or edge section that is not built yet and whose
  declared type is a string other than the known type names, construction raises
  ConfigError with the message \<open>relay type does not exist: \<close>, \<open>queue type does not
  exist: \<close> or \<open>edge type does not exist: \<close> followed by the type, and leaves the state
  unchanged; the message holds the bad type name.
\<close>

theorem unknown_type_error_message:
  "(relays s name = None \<and> section_options ''relay'' name options s = Inr (CMap m) \<and>
    map_of m ''type'' = Some (CStr t) \<and> t \<notin> {''mx'', ''static'', ''maildrop''} \<longrightarrow>
      start_relay name options s
        = (Inl (ConfigError (''relay type does not exist: '' @ t)), s) \<and>
      contains (''relay type does not exist: '' @ t) t) \<and>
   (queues s name = None \<and> section_options ''queue'' name options s = Inr (CMap m) \<and>
    map_of m ''type'' = Some (CStr t) \<and> t \<notin> {''default'', ''celery''} \<longrightarrow>
      start_queue name options s
        = (Inl (ConfigError (''queue type does not exist: '' @ t)), s) \<and>
      contains (''queue type does not exist: '' @ t) t) \<and>
   (edges s name = None \<and> section_options ''edge'' name options s = Inr (CMap m) \<and>
    map_of m ''type'' = Some (CStr t) \<and> t \<noteq> ''smtp'' \<longrightarrow>
      start_edge name options s
        = (Inl (ConfigError (''edge type does not exist: '' @ t)), s) \<and>
      contains (''edge type does not exist: '' @ t) t)"
proof (intro conjI impI)
  assume "relays s name = None \<and> section_options ''relay'' name options s = Inr (CMap m) \<and>
    map_of m ''type'' = Some (CStr t) \<and> t \<notin> {''mx'', ''static'', ''maildrop''}"
  then show "start_relay name options s
        = (Inl (ConfigError (''relay type does not exist: '' @ t)), s)"
    by (simp add: start_relay_def new_relay_of_def)
next
  assume "queues s name = None \<and> section_options ''queue'' name options s = Inr (CMap m) \<and>
    map_of m ''type'' = Some (CStr t) \<and> t \<notin> {''default'', ''celery''}"
  then show "start_queue name options s
        = (Inl (ConfigError (''queue type does not exist: '' @ t)), s)"
    by (auto simp: start_queue_def)
next
  assume "edges s name = None \<and> section_options ''edge'' name options s = Inr (CMap m) \<and>
    map_of m ''type'' = Some (CStr t) \<and> t \<noteq> ''smtp''"
  then show "start_edge name options s
        = (Inl (ConfigError (''edge type does not exist: '' @ t)), s)"
    by (simp add: start_edge_def)
qed (rule contains_append)+


text \<open>
  The instance: the relay pigeons of type carrier, the queue spool of type disk and the
  edge web of type http.
\<close>

theorem unknown_type_error_message_witness:
  "start_relay ''pigeons'' CNone loaded
     = (Inl (ConfigError ''relay type does not exist: carrier''), loaded) \<and>
   start_queue ''spool'' CNone loaded
     = (Inl (ConfigError ''queue type does not exist: disk''), loaded) \<and>
   start_edge ''web'' CNone loaded
     = (Inl (ConfigError ''edge type does not exist: http''), loaded) \<and>
   contains ''relay type does not exist: carrier'' ''carrier''"
proof -
  have r: "relays loaded ''pigeons'' = None" "queues loaded ''spool'' = None"
    "edges loaded ''web'' = None"
    by (simp_all add: loaded_def SlimtaState_init_def)
  have o: "section_options ''relay'' ''pigeons'' CNone loaded
             = Inr (CMap [(''type'', CStr ''carrier'')])"
    "section_options ''queue'' ''spool'' CNone loaded = Inr (CMap [(''type'', CStr ''disk'')])"
    "section_options ''edge'' ''web'' CNone loaded
       = Inr (CMap [(''type'', CStr ''http''), (''queue'', CStr ''plain'')])"
    by (simp_all add: section_options_def loaded_def demo_cfg_def SlimtaState_init_def)
  have "start_relay ''pigeons'' CNone loaded
     = (Inl (ConfigError ''relay type does not exist: carrier''), loaded) \<and>
     contains ''relay type does not exist: carrier'' ''carrier''"
    using unknown_type_error_message [where s = loaded and name = "''pigeons''"
        and options = CNone and m = "[(''type'', CStr ''carrier'')]" and t = "''carrier''"]
      r o by simp
  moreover have "start_queue ''spool'' CNone loaded
     = (Inl (ConfigError ''queue type does not exist: disk''), loaded)"
    using unknown_type_error_message [where s = loaded and name = "''spool''"
        and options = CNone and m = "[(''type'', CStr ''disk'')]" and t = "''disk''"]
      r o by simp
  moreover have "start_edge ''web'' CNone loaded
     = (Inl (ConfigError ''edge type does not exist: http''), loaded)"
    using unknown_type_error_message [where s = loaded and name = "''web''"
        and options = CNone and m = "[(''type'', CStr ''http''), (''queue'', CStr ''plain'')]"
        and t = "''http''"]
      r o by simp
  ultimately show ?thesis by simp
qed

text \<open>
  Claim C9 as stated speaks of every edge section. The edge web names its queue, yet
  its type is not smtp: \<open>_start_edge\<close> raises the error of the type dispatch and
  registers no edge. An smtp section that names its queue and gives a port that is no
  number fails in \<open>int\<close>, which is applied before the queue is looked at, and no edge is
  registered either.
\<close>

theorem start_edge_not_every_section_counterexample:
  "fst (start_edge ''web'' CNone loaded)
     = Inl (ConfigError ''edge type does not exist: http'') \<and>
   edges (snd (start_edge ''web'' CNone loaded)) ''web'' = None \<and>
   fst (start_edge ''mx'' (CMap [(''type'', CStr ''smtp''), (''queue'', CStr ''plain''),
          (''listeners'', CList [CMap [(''port'', CStr ''smtp'')]])]) loaded)
     = Inl ValueError \<and>
   edges (snd (start_edge ''mx'' (CMap [(''type'', CStr ''smtp''), (''queue'', CStr ''plain''),
          (''listeners'', CList [CMap [(''port'', CStr ''smtp'')]])]) loaded)) ''mx'' = None"
  by (simp add: state_eval int_of_string_def strip_def is_space_def unsigned_val_def
      digit_of_def)

text \<open>
  Claim C9, amended. For an edge section of type smtp that is not built yet, whose first listener
  is a mapping and whose port converts to an integer: without a queue name
  \<open>_start_edge\<close> raises the configuration error and changes nothing; with a queue name
  it obtains the queue from \<open>_start_queue\<close>, passing on its error if it fails, and
  otherwise constructs the edge on the listener's interface and port, 127.0.0.1 and 25
  when absent, bound to that queue, starts it, registers it under the name and returns
  it; later calls with the same name return the same edge and leave the state as it is.
\<close>

theorem start_edge_smtp:
  assumes "edges s name = None"
    and "section_options ''edge'' name options s = Inr (CMap m)"
    and "map_of m ''type'' = Some (CStr ''smtp'')"
    and "map_of m ''listeners'' = Some listeners"
    and "py_index0 listeners = Inr (CMap l)"
    and "py_int (case map_of l ''port'' of None \<Rightarrow> CInt 25 | Some v \<Rightarrow> v) = Inr port"
    and "ip = (case map_of l ''interface'' of None \<Rightarrow> CStr ''127.0.0.1'' | Some v \<Rightarrow> v)"
  shows
    "(\<not> truthy (case map_of m ''queue'' of None \<Rightarrow> CNone | Some v \<Rightarrow> v) \<longrightarrow>
        start_edge name options s
          = (Inl (ConfigError ''edge sections must be given a queue name''), s)) \<and>
     (map_of m ''queue'' = Some (CStr queue_name) \<and> queue_name \<noteq> [] \<and>
      start_queue queue_name CNone s = (Inl e, s1) \<longrightarrow>
        start_edge name options s = (Inl e, s1)) \<and>
     (map_of m ''queue'' = Some (CStr queue_name) \<and> queue_name \<noteq> [] \<and>
      start_queue queue_name CNone s = (Inr queue, s1) \<longrightarrow>
        start_edge name options s
          = (Inr (length (heap s1)),
             s1 \<lparr> heap := heap s1 @ [SmtpEdge ip port queue],
                  started := started s1 @ [length (heap s1)],
                  edges := (edges s1)(name \<mapsto> length (heap s1)) \<rparr>) \<and>
        start_edge name options'
            (run calls (snd (start_edge name options s)))
          = (Inr (length (heap s1)), run calls (snd (start_edge name options s))))"
proof -
  have la: "listener_address (CMap m) = Inr (ip, port)"
    using assms(4-7) by (simp add: listener_address_def)
  have memo: "start_edge name options' (run calls s') = (Inr x, run calls s')"
    if "start_edge name options s = (Inr x, s')" for x s'
    using that start_edge_registers run_mono(3) start_edge_memo by blast
  have 1: "start_edge name options s
          = (Inl (ConfigError ''edge sections must be given a queue name''), s)"
    if "\<not> truthy (case map_of m ''queue'' of None \<Rightarrow> CNone | Some v \<Rightarrow> v)"
    using that assms(1-3) la by (simp add: start_edge_def)
  have 2: "start_edge name options s = (Inl e, s1)"
    if "map_of m ''queue'' = Some (CStr queue_name)" "queue_name \<noteq> []"
      "start_queue queue_name CNone s = (Inl e, s1)"
    using that assms(1-3) la by (simp add: start_edge_def start_queue_named_def)
  have 3: "start_edge name options s
          = (Inr (length (heap s1)),
             s1 \<lparr> heap := heap s1 @ [SmtpEdge ip port queue],
                  started := started s1 @ [length (heap s1)],
                  edges := (edges s1)(name \<mapsto> length (heap s1)) \<rparr>)"
    if "map_of m ''queue'' = Some (CStr queue_name)" "queue_name \<noteq> []"
      "start_queue queue_name CNone s = (Inr queue, s1)"
    using that assms(1-3) la
    by (simp add: start_edge_def start_queue_named_def alloc_def)
  have 4: "start_edge name options' (run calls (snd (start_edge name options s)))
          = (Inr (length (heap s1)), run calls (snd (start_edge name options s)))"
    if "map_of m ''queue'' = Some (CStr queue_name)" "queue_name \<noteq> []"
      "start_queue queue_name CNone s = (Inr queue, s1)"
  proof -
    let ?s' = "s1 \<lparr> heap := heap s1 @ [SmtpEdge ip port queue],
                  started := started s1 @ [length (heap s1)],
                  edges := (edges s1)(name \<mapsto> length (heap s1)) \<rparr>"
    have eq: "start_edge name options s = (Inr (length (heap s1)), ?s')"
      using that by (rule 3)
    have "start_edge name options' (run calls ?s') = (Inr (length (heap s1)), run calls ?s')"
      using eq by (rule memo)
    moreover have "snd (start_edge name options s) = ?s'"
      by (simp only: eq snd_conv)
    ultimately show ?thesis by (simp only:)
  qed
  from 1 2 3 4 show ?thesis by blast
qed


text \<open>
  The instance: the edge submission has no queue name; the edge mail has an empty
  listener and the celery queue inbound, so it is built on 127.0.0.1 port 25 as object 3
  bound to queue 2, is started, and is returned again by a later call.
\<close>

theorem start_edge_smtp_witness:
  "start_edge ''submission'' CNone loaded
     = (Inl (ConfigError ''edge sections must be given a queue name''), loaded) \<and>
   fst (start_edge ''mail'' CNone loaded) = Inr 3 \<and>
   heap (snd (start_edge ''mail'' CNone loaded)) ! 3
     = SmtpEdge (CStr ''127.0.0.1'') 25 (Some 2) \<and>
   started (snd (start_edge ''mail'' CNone loaded)) = [3] \<and>
   start_edge ''mail'' CNone
       (run [StartEdge ''submission'' CNone] (snd (start_edge ''mail'' CNone loaded)))
     = (Inr 3, run [StartEdge ''submission'' CNone] (snd (start_edge ''mail'' CNone loaded)))"
proof -
  let ?s1 = "snd (start_queue ''inbound'' CNone loaded)"
  let ?mail = "[(''type'', CStr ''smtp''), (''queue'', CStr ''inbound''),
           (''listeners'', CList [CMap []])]"
  let ?sub = "[(''type'', CStr ''smtp''),
           (''listeners'', CList [CMap [(''interface'', CStr ''0.0.0.0''),
              (''port'', CStr ''587'')]])]"
  have q: "start_queue ''inbound'' CNone loaded = (Inr (Some 2), ?s1)"
    using inbound_first by (simp add: prod_eq_iff)
  have h: "length (heap ?s1) = 3" "started ?s1 = []"
    by (simp_all add: state_eval)
  have e: "edges loaded ''mail'' = None" "edges loaded ''submission'' = None"
    by (simp_all add: loaded_def SlimtaState_init_def)
  have o: "section_options ''edge'' ''mail'' CNone loaded = Inr (CMap ?mail)"
    "section_options ''edge'' ''submission'' CNone loaded = Inr (CMap ?sub)"
    by (simp_all add: section_options_def loaded_def demo_cfg_def SlimtaState_init_def)
  have p: "py_int (case map_of [(''interface'', CStr ''0.0.0.0''), (''port'', CStr ''587'')]
                ''port'' of None \<Rightarrow> CInt 25 | Some v \<Rightarrow> v) = Inr 587"
    by (simp add: int_of_string_def strip_def is_space_def unsigned_val_def digit_of_def)
  have a: "start_edge ''submission'' CNone loaded
     = (Inl (ConfigError ''edge sections must be given a queue name''), loaded)"
    using start_edge_smtp [where s = loaded and name = "''submission''" and options = CNone
        and m = ?sub and l = "[(''interface'', CStr ''0.0.0.0''), (''port'', CStr ''587'')]"
        and port = 587 and ip = "CStr ''0.0.0.0''" and e = TypeError and queue_name = "[]"
        and listeners = "CList [CMap [(''interface'', CStr ''0.0.0.0''),
              (''port'', CStr ''587'')]]", OF e(2) o(2) _ _ _ p]
    by simp
  have b: "start_edge ''mail'' CNone loaded
          = (Inr (length (heap ?s1)),
             ?s1 \<lparr> heap := heap ?s1 @ [SmtpEdge (CStr ''127.0.0.1'') 25 (Some 2)],
                  started := started ?s1 @ [length (heap ?s1)],
                  edges := (edges ?s1)(''mail'' \<mapsto> length (heap ?s1)) \<rparr>) \<and>
        start_edge ''mail'' CNone
            (run [StartEdge ''submission'' CNone] (snd (start_edge ''mail'' CNone loaded)))
          = (Inr (length (heap ?s1)),
             run [StartEdge ''submission'' CNone] (snd (start_edge ''mail'' CNone loaded)))"
  proof -
    have t: "map_of ?mail ''type'' = Some (CStr ''smtp'')"
      "map_of ?mail ''listeners'' = Some (CList [CMap []])"
      "py_index0 (CList [CMap []]) = Inr (CMap [])"
      "py_int (case map_of [] ''port'' of None \<Rightarrow> CInt 25 | Some v \<Rightarrow> v) = Inr 25"
      "CStr ''127.0.0.1''
         = (case map_of [] ''interface'' of None \<Rightarrow> CStr ''127.0.0.1'' | Some v \<Rightarrow> v)"
      by simp_all
    have mq: "map_of ?mail ''queue'' = Some (CStr ''inbound'') \<and> ''inbound'' \<noteq> [] \<and>
        start_queue ''inbound'' CNone loaded = (Inr (Some 2), ?s1)"
      using q by simp
    from start_edge_smtp [where s = loaded and name = "''mail''" and options = CNone
        and m = ?mail and l = "[]" and port = 25 and ip = "CStr ''127.0.0.1''"
        and queue_name = "''inbound''" and queue = "Some 2" and ?s1.0 = ?s1
        and options' = CNone and calls = "[StartEdge ''submission'' CNone]"
        and listeners = "CList [CMap []]" and e = TypeError,
        OF e(1) o(1) t] mq
    show ?thesis by blast
  qed
  let ?s2 = "snd (start_edge ''mail'' CNone loaded)"
  from b have b4: "start_edge ''mail'' CNone (run [StartEdge ''submission'' CNone] ?s2)
          = (Inr (length (heap ?s1)), run [StartEdge ''submission'' CNone] ?s2)"
    by (rule conjunct2)
  from b have b1: "fst (start_edge ''mail'' CNone loaded) = Inr (length (heap ?s1))"
    and b2: "heap ?s2 = heap ?s1 @ [SmtpEdge (CStr ''127.0.0.1'') 25 (Some 2)]"
    and b3: "started ?s2 = started ?s1 @ [length (heap ?s1)]"
    by simp_all
  have c1: "fst (start_edge ''mail'' CNone loaded) = Inr 3"
    using b1 h(1) by simp
  have c2: "heap ?s2 ! 3 = SmtpEdge (CStr ''127.0.0.1'') 25 (Some 2)"
    using b2 h(1) by (simp add: nth_append)
  have c3: "started ?s2 = [3]"
    using b3 h by simp
  have c4: "start_edge ''mail'' CNone (run [StartEdge ''submission'' CNone] ?s2)
          = (Inr 3, run [StartEdge ''submission'' CNone] ?s2)"
    using b4 h(1) by (simp only:)
  from a c1 c2 c3 c4 show ?thesis by blast
qed

end
